theory Spec2Isabelle
  imports Main
begin

section \<open>Records of the external store\<close>

text \<open>
  A remote record is a JavaScript object keyed by column name. The identifier column
  \<^verbatim>\<open>Id\<close> is kept apart as a number (the services document their identifiers as
  \<^verbatim>\<open>{number}\<close>); the remaining columns are an association list.
\<close>

datatype fval = Num int | Str string

record entity =
  Id :: int
  cols :: "(string \<times> fval) list"

text \<open>\<^verbatim>\<open>obj[name]\<close>: a column that is absent reads as \<^verbatim>\<open>undefined\<close>, here \<open>None\<close>.\<close>

definition field_of :: "entity \<Rightarrow> string \<Rightarrow> fval option" where
  "field_of r name = (if name = ''Id'' then Some (Num (Id r)) else map_of (cols r) name)"

text \<open>
  The value a rejected call carries, as far as the code looks at it: only its
  \<^verbatim>\<open>message\<close> property is ever read. \<open>Error m\<close> is an object whose message is the string
  \<open>m\<close> (possibly empty); \<open>NoMessage\<close> is any other value that is neither \<^verbatim>\<open>null\<close> nor
  \<^verbatim>\<open>undefined\<close>, such as a rejected string, whose message reads as \<^verbatim>\<open>undefined\<close>;
  \<open>Nullish\<close> is \<^verbatim>\<open>null\<close> or \<^verbatim>\<open>undefined\<close>, on which reading a property throws.
\<close>

datatype js_error = Error string | NoMessage | Nullish

subsection \<open>utils/apperClient: table names and field names\<close>

definition TableNames_TASK :: string where "TableNames_TASK = ''task1''"
definition TableNames_PROJECT :: string where "TableNames_PROJECT = ''project1''"
definition TableNames_USER :: string where "TableNames_USER = ''User1''"
definition TableNames_TASK_PROJECT :: string where "TableNames_TASK_PROJECT = ''task_project''"

text \<open>\<^verbatim>\<open>Object.values(FieldNames.X)\<close>, in declaration order.\<close>

definition FieldNames_TASK :: "string list" where
  "FieldNames_TASK =
     [''Id'', ''Name'', ''title'', ''description'', ''due_date'', ''status'', ''priority'',
      ''assigned_to'']"

definition FieldNames_PROJECT :: "string list" where
  "FieldNames_PROJECT =
     [''Id'', ''Name'', ''description'', ''start_date'', ''end_date'', ''status'']"

definition FieldNames_USER :: "string list" where
  "FieldNames_USER = [''Id'', ''Name'', ''email'', ''role'']"

subsection \<open>Requests sent to the store\<close>

text \<open>
  A filter maps a column either to a value or to \<^verbatim>\<open>{ $in: [...] }\<close>. The list under
  \<^verbatim>\<open>$in\<close> is built by reading a column of other records, so an entry may be
  \<^verbatim>\<open>undefined\<close>.
\<close>

datatype cond = Equals fval | IsIn "fval option list"

record params =
  fields' :: "string list"
  pagingInfo :: "(int \<times> int) option"
  orderBy :: "(string \<times> string) list option"
  filters :: "(string \<times> cond) list"

datatype request =
    FetchRecords string params
  | CreateRecord string "(string \<times> fval) list"
  | UpdateRecord string int "(string \<times> fval) list"
  | DeleteRecord string int

fun table_of :: "request \<Rightarrow> string" where
  "table_of (FetchRecords t _) = t"
| "table_of (CreateRecord t _) = t"
| "table_of (UpdateRecord t _ _) = t"
| "table_of (DeleteRecord t _) = t"

record 'a response =
  data :: 'a

text \<open>
  The client object of the SDK is not part of the repository. Its four methods are taken
  as a parameter: each receives the requests made so far (the store may be stateful) and
  the arguments of the call, and either rejects with an error or resolves with a response.
  A list response carries an array of records, a create or update response one record.
\<close>

record store =
  fetchRecords :: "request list \<Rightarrow> string \<Rightarrow> params \<Rightarrow> js_error + entity list response"
  createRecord ::
    "request list \<Rightarrow> string \<Rightarrow> (string \<times> fval) list \<Rightarrow> js_error + entity response"
  updateRecord ::
    "request list \<Rightarrow> string \<Rightarrow> int \<Rightarrow> (string \<times> fval) list \<Rightarrow> js_error + entity response"
  deleteRecord :: "request list \<Rightarrow> string \<Rightarrow> int \<Rightarrow> js_error + unit response"

subsection \<open>utils/apperClient: the singleton client\<close>

datatype client = ApperClient (canvasId: string)

definition CANVAS_ID :: string where
  "CANVAS_ID = ''8ac1bf2d6b3b4f9d9d32321e648b406a''"

text \<open>
  The module variable \<^verbatim>\<open>apperClient\<close>, whether \<^verbatim>\<open>window.ApperSDK\<close> is loaded, and
  the network interaction so far: every request that reached the store, oldest first.
\<close>

record env =
  apperClient :: "client option"
  ApperSDK :: bool
  calls :: "request list"

definition getApperClient :: "env \<Rightarrow> client option \<times> env" where
  "getApperClient e =
     (if apperClient e = None \<and> ApperSDK e
      then (Some (ApperClient CANVAS_ID), e\<lparr>apperClient := Some (ApperClient CANVAS_ID)\<rparr>)
      else (apperClient e, e))"

text \<open>A method call on the client is one request on the network.\<close>

definition client_fetchRecords ::
  "store \<Rightarrow> string \<Rightarrow> params \<Rightarrow> env \<Rightarrow> (js_error + entity list response) \<times> env" where
  "client_fetchRecords st t p e =
     (fetchRecords st (calls e) t p, e\<lparr>calls := calls e @ [FetchRecords t p]\<rparr>)"

definition client_createRecord ::
  "store \<Rightarrow> string \<Rightarrow> (string \<times> fval) list \<Rightarrow> env \<Rightarrow> (js_error + entity response) \<times> env" where
  "client_createRecord st t r e =
     (createRecord st (calls e) t r, e\<lparr>calls := calls e @ [CreateRecord t r]\<rparr>)"

definition client_updateRecord ::
  "store \<Rightarrow> string \<Rightarrow> int \<Rightarrow> (string \<times> fval) list \<Rightarrow> env \<Rightarrow> (js_error + entity response) \<times> env"
  where
  "client_updateRecord st t i r e =
     (updateRecord st (calls e) t i r, e\<lparr>calls := calls e @ [UpdateRecord t i r]\<rparr>)"

definition client_deleteRecord ::
  "store \<Rightarrow> string \<Rightarrow> int \<Rightarrow> env \<Rightarrow> (js_error + unit response) \<times> env" where
  "client_deleteRecord st t i e =
     (deleteRecord st (calls e) t i, e\<lparr>calls := calls e @ [DeleteRecord t i]\<rparr>)"

section \<open>The services (Remote Entity Gateway)\<close>

text \<open>
  Every service function reads the client first and throws when there is none. Its
  \<^verbatim>\<open>try\<close> block awaits one client call and returns \<^verbatim>\<open>response.data\<close>; its
  \<^verbatim>\<open>catch\<close> block prints the error and throws it again. The result is \<open>Inl\<close> for a
  thrown error and \<open>Inr\<close> for a returned value, next to the environment afterwards.
\<close>

definition not_initialized :: js_error where
  "not_initialized = Error ''ApperClient not initialized''"

text \<open>The \<^verbatim>\<open>options\<close> argument of the list functions; an absent property is \<open>None\<close>.\<close>

record options =
  opt_filters :: "(string \<times> cond) list option"
  opt_limit :: "int option"
  opt_offset :: "int option"
  opt_orderBy :: "(string \<times> string) list option"

definition list_params :: "string list \<Rightarrow> (string \<times> string) \<Rightarrow> options \<Rightarrow> params" where
  "list_params fs dflt opts =
     \<lparr>fields' = fs,
      pagingInfo = Some (case opt_limit opts of None \<Rightarrow> 50 | Some l \<Rightarrow> l,
                         case opt_offset opts of None \<Rightarrow> 0 | Some off \<Rightarrow> off),
      orderBy = Some (case opt_orderBy opts of None \<Rightarrow> [dflt] | Some ob \<Rightarrow> ob),
      filters = (case opt_filters opts of None \<Rightarrow> [] | Some f \<Rightarrow> f)\<rparr>"

definition by_id_params :: "string list \<Rightarrow> int \<Rightarrow> params" where
  "by_id_params fs i =
     \<lparr>fields' = fs, pagingInfo = None, orderBy = None, filters = [(''Id'', Equals (Num i))]\<rparr>"

text \<open>\<^verbatim>\<open>response.data?.length > 0 ? response.data[0] : null\<close>\<close>

definition first_or_null :: "entity list \<Rightarrow> entity option" where
  "first_or_null rows = (if length rows > 0 then Some (rows ! 0) else None)"

subsection \<open>services/taskService\<close>

definition taskService_fetchTasks ::
  "store \<Rightarrow> options \<Rightarrow> env \<Rightarrow> (js_error + entity list) \<times> env" where
  "taskService_fetchTasks st opts e0 =
     (case getApperClient e0 of
        (None, e) \<Rightarrow> (Inl not_initialized, e)
      | (Some cl, e) \<Rightarrow>
          (case client_fetchRecords st TableNames_TASK
                  (list_params FieldNames_TASK (''due_date'', ''asc'') opts) e of
             (Inr resp, e') \<Rightarrow> (Inr (data resp), e')
           | (Inl err, e') \<Rightarrow> (Inl err, e')))"

definition taskService_fetchTaskById ::
  "store \<Rightarrow> int \<Rightarrow> env \<Rightarrow> (js_error + entity option) \<times> env" where
  "taskService_fetchTaskById st taskId e0 =
     (case getApperClient e0 of
        (None, e) \<Rightarrow> (Inl not_initialized, e)
      | (Some cl, e) \<Rightarrow>
          (case client_fetchRecords st TableNames_TASK (by_id_params FieldNames_TASK taskId) e of
             (Inr resp, e') \<Rightarrow> (Inr (first_or_null (data resp)), e')
           | (Inl err, e') \<Rightarrow> (Inl err, e')))"

definition taskService_createTask ::
  "store \<Rightarrow> (string \<times> fval) list \<Rightarrow> env \<Rightarrow> (js_error + entity) \<times> env" where
  "taskService_createTask st taskData e0 =
     (case getApperClient e0 of
        (None, e) \<Rightarrow> (Inl not_initialized, e)
      | (Some cl, e) \<Rightarrow>
          (case client_createRecord st TableNames_TASK taskData e of
             (Inr resp, e') \<Rightarrow> (Inr (data resp), e')
           | (Inl err, e') \<Rightarrow> (Inl err, e')))"

definition taskService_updateTask ::
  "store \<Rightarrow> int \<Rightarrow> (string \<times> fval) list \<Rightarrow> env \<Rightarrow> (js_error + entity) \<times> env" where
  "taskService_updateTask st taskId taskData e0 =
     (case getApperClient e0 of
        (None, e) \<Rightarrow> (Inl not_initialized, e)
      | (Some cl, e) \<Rightarrow>
          (case client_updateRecord st TableNames_TASK taskId taskData e of
             (Inr resp, e') \<Rightarrow> (Inr (data resp), e')
           | (Inl err, e') \<Rightarrow> (Inl err, e')))"

definition taskService_deleteTask ::
  "store \<Rightarrow> int \<Rightarrow> env \<Rightarrow> (js_error + unit) \<times> env" where
  "taskService_deleteTask st taskId e0 =
     (case getApperClient e0 of
        (None, e) \<Rightarrow> (Inl not_initialized, e)
      | (Some cl, e) \<Rightarrow>
          (case client_deleteRecord st TableNames_TASK taskId e of
             (Inr resp, e') \<Rightarrow> (Inr (data resp), e')
           | (Inl err, e') \<Rightarrow> (Inl err, e')))"

definition taskService_associateTaskWithProject ::
  "store \<Rightarrow> int \<Rightarrow> int \<Rightarrow> env \<Rightarrow> (js_error + entity) \<times> env" where
  "taskService_associateTaskWithProject st taskId projectId e0 =
     (case getApperClient e0 of
        (None, e) \<Rightarrow> (Inl not_initialized, e)
      | (Some cl, e) \<Rightarrow>
          (case client_createRecord st TableNames_TASK_PROJECT
                  [(''task_id'', Num taskId), (''project_id'', Num projectId)] e of
             (Inr resp, e') \<Rightarrow> (Inr (data resp), e')
           | (Inl err, e') \<Rightarrow> (Inl err, e')))"

subsection \<open>services/projectService\<close>

definition projectService_fetchProjects ::
  "store \<Rightarrow> options \<Rightarrow> env \<Rightarrow> (js_error + entity list) \<times> env" where
  "projectService_fetchProjects st opts e0 =
     (case getApperClient e0 of
        (None, e) \<Rightarrow> (Inl not_initialized, e)
      | (Some cl, e) \<Rightarrow>
          (case client_fetchRecords st TableNames_PROJECT
                  (list_params FieldNames_PROJECT (''start_date'', ''desc'') opts) e of
             (Inr resp, e') \<Rightarrow> (Inr (data resp), e')
           | (Inl err, e') \<Rightarrow> (Inl err, e')))"

definition projectService_fetchProjectById ::
  "store \<Rightarrow> int \<Rightarrow> env \<Rightarrow> (js_error + entity option) \<times> env" where
  "projectService_fetchProjectById st projectId e0 =
     (case getApperClient e0 of
        (None, e) \<Rightarrow> (Inl not_initialized, e)
      | (Some cl, e) \<Rightarrow>
          (case client_fetchRecords st TableNames_PROJECT
                  (by_id_params FieldNames_PROJECT projectId) e of
             (Inr resp, e') \<Rightarrow> (Inr (first_or_null (data resp)), e')
           | (Inl err, e') \<Rightarrow> (Inl err, e')))"

definition projectService_createProject ::
  "store \<Rightarrow> (string \<times> fval) list \<Rightarrow> env \<Rightarrow> (js_error + entity) \<times> env" where
  "projectService_createProject st projectData e0 =
     (case getApperClient e0 of
        (None, e) \<Rightarrow> (Inl not_initialized, e)
      | (Some cl, e) \<Rightarrow>
          (case client_createRecord st TableNames_PROJECT projectData e of
             (Inr resp, e') \<Rightarrow> (Inr (data resp), e')
           | (Inl err, e') \<Rightarrow> (Inl err, e')))"

definition projectService_updateProject ::
  "store \<Rightarrow> int \<Rightarrow> (string \<times> fval) list \<Rightarrow> env \<Rightarrow> (js_error + entity) \<times> env" where
  "projectService_updateProject st projectId projectData e0 =
     (case getApperClient e0 of
        (None, e) \<Rightarrow> (Inl not_initialized, e)
      | (Some cl, e) \<Rightarrow>
          (case client_updateRecord st TableNames_PROJECT projectId projectData e of
             (Inr resp, e') \<Rightarrow> (Inr (data resp), e')
           | (Inl err, e') \<Rightarrow> (Inl err, e')))"

definition projectService_deleteProject ::
  "store \<Rightarrow> int \<Rightarrow> env \<Rightarrow> (js_error + unit) \<times> env" where
  "projectService_deleteProject st projectId e0 =
     (case getApperClient e0 of
        (None, e) \<Rightarrow> (Inl not_initialized, e)
      | (Some cl, e) \<Rightarrow>
          (case client_deleteRecord st TableNames_PROJECT projectId e of
             (Inr resp, e') \<Rightarrow> (Inr (data resp), e')
           | (Inl err, e') \<Rightarrow> (Inl err, e')))"

text \<open>
  The association resolver: one query for the associations of the project, an early
  return when there is none, otherwise one query for the tasks whose identifier is among
  the collected ones. (\<^verbatim>\<open>response.data || []\<close> is the array itself.)
\<close>

definition association_params :: "int \<Rightarrow> params" where
  "association_params projectId =
     \<lparr>fields' = [''Id'', ''task_id''], pagingInfo = None, orderBy = None,
      filters = [(''project_id'', Equals (Num projectId))]\<rparr>"

definition tasks_in_params :: "fval option list \<Rightarrow> params" where
  "tasks_in_params taskIds =
     \<lparr>fields' = FieldNames_TASK, pagingInfo = None, orderBy = None,
      filters = [(''Id'', IsIn taskIds)]\<rparr>"

definition projectService_fetchTasksByProject ::
  "store \<Rightarrow> int \<Rightarrow> env \<Rightarrow> (js_error + entity list) \<times> env" where
  "projectService_fetchTasksByProject st projectId e0 =
     (case getApperClient e0 of
        (None, e) \<Rightarrow> (Inl not_initialized, e)
      | (Some cl, e) \<Rightarrow>
          (case client_fetchRecords st TableNames_TASK_PROJECT (association_params projectId) e of
             (Inl err, e1) \<Rightarrow> (Inl err, e1)
           | (Inr associationsResponse, e1) \<Rightarrow>
               (let associations = data associationsResponse in
                if length associations = 0 then (Inr [], e1)
                else
                  (let taskIds = map (\<lambda>assoc. field_of assoc ''task_id'') associations in
                   case client_fetchRecords st TableNames_TASK (tasks_in_params taskIds) e1 of
                     (Inr tasksResponse, e2) \<Rightarrow> (Inr (data tasksResponse), e2)
                   | (Inl err, e2) \<Rightarrow> (Inl err, e2)))))"

subsection \<open>services/userService\<close>

definition userService_fetchUsers ::
  "store \<Rightarrow> options \<Rightarrow> env \<Rightarrow> (js_error + entity list) \<times> env" where
  "userService_fetchUsers st opts e0 =
     (case getApperClient e0 of
        (None, e) \<Rightarrow> (Inl not_initialized, e)
      | (Some cl, e) \<Rightarrow>
          (case client_fetchRecords st TableNames_USER
                  (list_params FieldNames_USER (''Name'', ''asc'') opts) e of
             (Inr resp, e') \<Rightarrow> (Inr (data resp), e')
           | (Inl err, e') \<Rightarrow> (Inl err, e')))"

definition userService_fetchUserById ::
  "store \<Rightarrow> int \<Rightarrow> env \<Rightarrow> (js_error + entity option) \<times> env" where
  "userService_fetchUserById st userId e0 =
     (case getApperClient e0 of
        (None, e) \<Rightarrow> (Inl not_initialized, e)
      | (Some cl, e) \<Rightarrow>
          (case client_fetchRecords st TableNames_USER (by_id_params FieldNames_USER userId) e of
             (Inr resp, e') \<Rightarrow> (Inr (first_or_null (data resp)), e')
           | (Inl err, e') \<Rightarrow> (Inl err, e')))"

definition userService_createUser ::
  "store \<Rightarrow> (string \<times> fval) list \<Rightarrow> env \<Rightarrow> (js_error + entity) \<times> env" where
  "userService_createUser st userData e0 =
     (case getApperClient e0 of
        (None, e) \<Rightarrow> (Inl not_initialized, e)
      | (Some cl, e) \<Rightarrow>
          (case client_createRecord st TableNames_USER userData e of
             (Inr resp, e') \<Rightarrow> (Inr (data resp), e')
           | (Inl err, e') \<Rightarrow> (Inl err, e')))"

definition userService_updateUser ::
  "store \<Rightarrow> int \<Rightarrow> (string \<times> fval) list \<Rightarrow> env \<Rightarrow> (js_error + entity) \<times> env" where
  "userService_updateUser st userId userData e0 =
     (case getApperClient e0 of
        (None, e) \<Rightarrow> (Inl not_initialized, e)
      | (Some cl, e) \<Rightarrow>
          (case client_updateRecord st TableNames_USER userId userData e of
             (Inr resp, e') \<Rightarrow> (Inr (data resp), e')
           | (Inl err, e') \<Rightarrow> (Inl err, e')))"

definition userService_fetchTasksByUser ::
  "store \<Rightarrow> int \<Rightarrow> env \<Rightarrow> (js_error + entity list) \<times> env" where
  "userService_fetchTasksByUser st userId e0 =
     (case getApperClient e0 of
        (None, e) \<Rightarrow> (Inl not_initialized, e)
      | (Some cl, e) \<Rightarrow>
          (case client_fetchRecords st TableNames_TASK
                  \<lparr>fields' = FieldNames_TASK, pagingInfo = None, orderBy = None,
                   filters = [(''assigned_to'', Equals (Num userId))]\<rparr> e of
             (Inr resp, e') \<Rightarrow> (Inr (data resp), e')
           | (Inl err, e') \<Rightarrow> (Inl err, e')))"

section \<open>The entity state containers\<close>

text \<open>
  \<^verbatim>\<open>user\<close> of the authentication context: \<open>None\<close> when nobody is signed in.
\<close>

type_synonym identity = "(string \<times> fval) list"

text \<open>The state shared by the providers, and the state of each provider.\<close>

record provider =
  loading :: bool
  error :: "string option"

record TaskProvider = provider +
  tasks :: "entity list"
  currentTask :: "entity option"

record ProjectProvider = provider +
  projects :: "entity list"
  currentProject :: "entity option"
  projectTasks :: "entity list"

text \<open>
  What an operation of a provider returns to its caller, and what it can throw: the
  \<^verbatim>\<open>TypeError\<close> of reading the message of \<^verbatim>\<open>null\<close> or \<^verbatim>\<open>undefined\<close>.
\<close>

datatype retval = Undefined | Null | Rec entity | Recs "entity list" | Boolean bool

datatype thrown = TypeError

definition or_null :: "entity option \<Rightarrow> retval" where
  "or_null r = (case r of None \<Rightarrow> Null | Some x \<Rightarrow> Rec x)"

text \<open>
  \<^verbatim>\<open>err.message || fallback\<close>: reading the message throws when \<^verbatim>\<open>err\<close> is \<^verbatim>\<open>null\<close>
  or \<^verbatim>\<open>undefined\<close>; a missing message and the empty string are falsy.
\<close>

definition message_or :: "js_error \<Rightarrow> string \<Rightarrow> thrown + string" where
  "message_or err fallback =
     (case err of
        Nullish \<Rightarrow> Inl TypeError
      | NoMessage \<Rightarrow> Inr fallback
      | Error m \<Rightarrow> Inr (if m = [] then fallback else m))"

text \<open>
  A number inside a template literal. An integer of magnitude below \<^verbatim>\<open>2^53\<close> prints as
  its decimal digits, with a minus sign when negative. A larger number is printed by the
  engine from its nearest floating-point value, with at most 17 significant digits and in
  exponent notation from \<^verbatim>\<open>10^21\<close> on; that rendering is the parameter \<open>nf\<close>.
\<close>

type_synonym number_format = "int \<Rightarrow> string"

fun digits :: "nat \<Rightarrow> string" where
  "digits n =
     (if n < 10 then [''0123456789'' ! n]
      else digits (n div 10) @ [''0123456789'' ! (n mod 10)])"

declare digits.simps [simp del]

definition toString :: "number_format \<Rightarrow> int \<Rightarrow> string" where
  "toString nf i =
     (if \<bar>i\<bar> < 2 ^ 53
      then (if i < 0 then CHR ''-'' # digits (nat (- i)) else digits (nat i))
      else nf i)"

text \<open>
  Every operation returns at once when there is no user. Otherwise it sets
  \<^verbatim>\<open>loading\<close>, clears \<^verbatim>\<open>error\<close>, awaits the service, and either applies the result to
  the state or runs its \<^verbatim>\<open>catch\<close> block; \<^verbatim>\<open>finally\<close> clears \<^verbatim>\<open>loading\<close>. The result
  is \<open>Inr\<close> of the returned value or \<open>Inl\<close> of what the operation throws to its caller.

  The \<^verbatim>\<open>catch\<close> block with the \<^verbatim>\<open>finally\<close> block, the same in every operation but
  for the fallback message and the value returned: it evaluates
  \<^verbatim>\<open>err.message || fallback\<close>, stores the result with \<^verbatim>\<open>setError\<close> and returns the
  neutral value. When reading the message throws, \<^verbatim>\<open>setError\<close> is not reached and the
  operation throws, after \<^verbatim>\<open>finally\<close> has cleared \<^verbatim>\<open>loading\<close>.
\<close>

definition catch_finally ::
  "js_error \<Rightarrow> string \<Rightarrow> retval \<Rightarrow> env \<Rightarrow> 'a provider_scheme
     \<Rightarrow> (thrown + retval) \<times> env \<times> 'a provider_scheme" where
  "catch_finally err fallback neutral e s1 =
     (case message_or err fallback of
        Inr msg \<Rightarrow> (Inr neutral, e, s1\<lparr>error := Some msg, loading := False\<rparr>)
      | Inl t \<Rightarrow> (Inl t, e, s1\<lparr>loading := False\<rparr>))"

subsection \<open>context/TaskContext\<close>

definition TaskProvider_fetchTasks ::
  "store \<Rightarrow> identity option \<Rightarrow> options \<Rightarrow> env \<Rightarrow> TaskProvider
     \<Rightarrow> (thrown + retval) \<times> env \<times> TaskProvider" where
  "TaskProvider_fetchTasks st user opts e s =
     (if user = None then (Inr Undefined, e, s)
      else
        (let s1 = s\<lparr>loading := True, error := None\<rparr> in
         case taskService_fetchTasks st opts e of
           (Inr fetchedTasks, e') \<Rightarrow>
             (Inr Undefined, e', s1\<lparr>tasks := fetchedTasks, loading := False\<rparr>)
         | (Inl err, e') \<Rightarrow>
             catch_finally err ''Failed to fetch tasks'' Undefined e' s1))"

definition TaskProvider_fetchTaskById ::
  "store \<Rightarrow> number_format \<Rightarrow> identity option \<Rightarrow> int \<Rightarrow> env \<Rightarrow> TaskProvider
     \<Rightarrow> (thrown + retval) \<times> env \<times> TaskProvider" where
  "TaskProvider_fetchTaskById st nf user taskId e s =
     (if user = None then (Inr Undefined, e, s)
      else
        (let s1 = s\<lparr>loading := True, error := None\<rparr> in
         case taskService_fetchTaskById st taskId e of
           (Inr task, e') \<Rightarrow>
             (Inr (or_null task), e', s1\<lparr>currentTask := task, loading := False\<rparr>)
         | (Inl err, e') \<Rightarrow>
             catch_finally err
               (''Failed to fetch task with ID '' @ toString nf taskId)
               Null e' s1))"

definition TaskProvider_createTask ::
  "store \<Rightarrow> identity option \<Rightarrow> (string \<times> fval) list \<Rightarrow> env \<Rightarrow> TaskProvider
     \<Rightarrow> (thrown + retval) \<times> env \<times> TaskProvider" where
  "TaskProvider_createTask st user taskData e s =
     (if user = None then (Inr Null, e, s)
      else
        (let s1 = s\<lparr>loading := True, error := None\<rparr> in
         case taskService_createTask st taskData e of
           (Inr newTask, e') \<Rightarrow>
             (Inr (Rec newTask), e', s1\<lparr>tasks := tasks s1 @ [newTask], loading := False\<rparr>)
         | (Inl err, e') \<Rightarrow>
             catch_finally err ''Failed to create task'' Null e' s1))"

definition TaskProvider_updateTask ::
  "store \<Rightarrow> number_format \<Rightarrow> identity option \<Rightarrow> int \<Rightarrow> (string \<times> fval) list \<Rightarrow> env \<Rightarrow> TaskProvider
     \<Rightarrow> (thrown + retval) \<times> env \<times> TaskProvider" where
  "TaskProvider_updateTask st nf user taskId taskData e s =
     (if user = None then (Inr Null, e, s)
      else
        (let s1 = s\<lparr>loading := True, error := None\<rparr> in
         case taskService_updateTask st taskId taskData e of
           (Inr updatedTask, e') \<Rightarrow>
             (let s2 = s1\<lparr>tasks := map (\<lambda>task. if Id task = taskId then updatedTask else task)
                                     (tasks s1)\<rparr>;
                  s3 = (case currentTask s of
                          Some cur \<Rightarrow> if Id cur = taskId then s2\<lparr>currentTask := Some updatedTask\<rparr>
                                     else s2
                        | None \<Rightarrow> s2)
              in (Inr (Rec updatedTask), e', s3\<lparr>loading := False\<rparr>))
         | (Inl err, e') \<Rightarrow>
             catch_finally err
               (''Failed to update task with ID '' @ toString nf taskId)
               Null e' s1))"

definition TaskProvider_deleteTask ::
  "store \<Rightarrow> number_format \<Rightarrow> identity option \<Rightarrow> int \<Rightarrow> env \<Rightarrow> TaskProvider
     \<Rightarrow> (thrown + retval) \<times> env \<times> TaskProvider" where
  "TaskProvider_deleteTask st nf user taskId e s =
     (if user = None then (Inr (Boolean False), e, s)
      else
        (let s1 = s\<lparr>loading := True, error := None\<rparr> in
         case taskService_deleteTask st taskId e of
           (Inr ack, e') \<Rightarrow>
             (let s2 = s1\<lparr>tasks := filter (\<lambda>task. Id task \<noteq> taskId) (tasks s1)\<rparr>;
                  s3 = (case currentTask s of
                          Some cur \<Rightarrow> if Id cur = taskId then s2\<lparr>currentTask := None\<rparr> else s2
                        | None \<Rightarrow> s2)
              in (Inr (Boolean True), e', s3\<lparr>loading := False\<rparr>))
         | (Inl err, e') \<Rightarrow>
             catch_finally err
               (''Failed to delete task with ID '' @ toString nf taskId)
               (Boolean False) e' s1))"

definition TaskProvider_associateWithProject ::
  "store \<Rightarrow> number_format \<Rightarrow> identity option \<Rightarrow> int \<Rightarrow> int \<Rightarrow> env \<Rightarrow> TaskProvider
     \<Rightarrow> (thrown + retval) \<times> env \<times> TaskProvider" where
  "TaskProvider_associateWithProject st nf user taskId projectId e s =
     (if user = None then (Inr Null, e, s)
      else
        (let s1 = s\<lparr>loading := True, error := None\<rparr> in
         case taskService_associateTaskWithProject st taskId projectId e of
           (Inr association, e') \<Rightarrow> (Inr (Rec association), e', s1\<lparr>loading := False\<rparr>)
         | (Inl err, e') \<Rightarrow>
             catch_finally err
               (''Failed to associate task '' @ toString nf taskId @ '' with project '' @ toString nf projectId)
               Null e' s1))"

subsection \<open>context/ProjectContext\<close>

definition ProjectProvider_fetchProjects ::
  "store \<Rightarrow> identity option \<Rightarrow> options \<Rightarrow> env \<Rightarrow> ProjectProvider
     \<Rightarrow> (thrown + retval) \<times> env \<times> ProjectProvider" where
  "ProjectProvider_fetchProjects st user opts e s =
     (if user = None then (Inr Undefined, e, s)
      else
        (let s1 = s\<lparr>loading := True, error := None\<rparr> in
         case projectService_fetchProjects st opts e of
           (Inr fetchedProjects, e') \<Rightarrow>
             (Inr Undefined, e', s1\<lparr>projects := fetchedProjects, loading := False\<rparr>)
         | (Inl err, e') \<Rightarrow>
             catch_finally err ''Failed to fetch projects'' Undefined e' s1))"

definition ProjectProvider_fetchProjectById ::
  "store \<Rightarrow> number_format \<Rightarrow> identity option \<Rightarrow> int \<Rightarrow> env \<Rightarrow> ProjectProvider
     \<Rightarrow> (thrown + retval) \<times> env \<times> ProjectProvider" where
  "ProjectProvider_fetchProjectById st nf user projectId e s =
     (if user = None then (Inr Undefined, e, s)
      else
        (let s1 = s\<lparr>loading := True, error := None\<rparr> in
         case projectService_fetchProjectById st projectId e of
           (Inr project, e') \<Rightarrow>
             (Inr (or_null project), e', s1\<lparr>currentProject := project, loading := False\<rparr>)
         | (Inl err, e') \<Rightarrow>
             catch_finally err
               (''Failed to fetch project with ID '' @ toString nf projectId)
               Null e' s1))"

definition ProjectProvider_createProject ::
  "store \<Rightarrow> identity option \<Rightarrow> (string \<times> fval) list \<Rightarrow> env \<Rightarrow> ProjectProvider
     \<Rightarrow> (thrown + retval) \<times> env \<times> ProjectProvider" where
  "ProjectProvider_createProject st user projectData e s =
     (if user = None then (Inr Null, e, s)
      else
        (let s1 = s\<lparr>loading := True, error := None\<rparr> in
         case projectService_createProject st projectData e of
           (Inr newProject, e') \<Rightarrow>
             (Inr (Rec newProject), e',
              s1\<lparr>projects := projects s1 @ [newProject], loading := False\<rparr>)
         | (Inl err, e') \<Rightarrow>
             catch_finally err ''Failed to create project'' Null e' s1))"

definition ProjectProvider_updateProject ::
  "store \<Rightarrow> number_format \<Rightarrow> identity option \<Rightarrow> int \<Rightarrow> (string \<times> fval) list \<Rightarrow> env \<Rightarrow> ProjectProvider
     \<Rightarrow> (thrown + retval) \<times> env \<times> ProjectProvider" where
  "ProjectProvider_updateProject st nf user projectId projectData e s =
     (if user = None then (Inr Null, e, s)
      else
        (let s1 = s\<lparr>loading := True, error := None\<rparr> in
         case projectService_updateProject st projectId projectData e of
           (Inr updatedProject, e') \<Rightarrow>
             (let s2 = s1\<lparr>projects :=
                           map (\<lambda>project. if Id project = projectId then updatedProject else project)
                             (projects s1)\<rparr>;
                  s3 = (case currentProject s of
                          Some cur \<Rightarrow>
                            if Id cur = projectId then s2\<lparr>currentProject := Some updatedProject\<rparr>
                            else s2
                        | None \<Rightarrow> s2)
              in (Inr (Rec updatedProject), e', s3\<lparr>loading := False\<rparr>))
         | (Inl err, e') \<Rightarrow>
             catch_finally err
               (''Failed to update project with ID '' @ toString nf projectId)
               Null e' s1))"

definition ProjectProvider_deleteProject ::
  "store \<Rightarrow> number_format \<Rightarrow> identity option \<Rightarrow> int \<Rightarrow> env \<Rightarrow> ProjectProvider
     \<Rightarrow> (thrown + retval) \<times> env \<times> ProjectProvider" where
  "ProjectProvider_deleteProject st nf user projectId e s =
     (if user = None then (Inr (Boolean False), e, s)
      else
        (let s1 = s\<lparr>loading := True, error := None\<rparr> in
         case projectService_deleteProject st projectId e of
           (Inr ack, e') \<Rightarrow>
             (let s2 = s1\<lparr>projects := filter (\<lambda>project. Id project \<noteq> projectId) (projects s1)\<rparr>;
                  s3 = (case currentProject s of
                          Some cur \<Rightarrow> if Id cur = projectId then s2\<lparr>currentProject := None\<rparr> else s2
                        | None \<Rightarrow> s2)
              in (Inr (Boolean True), e', s3\<lparr>loading := False\<rparr>))
         | (Inl err, e') \<Rightarrow>
             catch_finally err
               (''Failed to delete project with ID '' @ toString nf projectId)
               (Boolean False) e' s1))"

definition ProjectProvider_fetchTasksByProject ::
  "store \<Rightarrow> number_format \<Rightarrow> identity option \<Rightarrow> int \<Rightarrow> env \<Rightarrow> ProjectProvider
     \<Rightarrow> (thrown + retval) \<times> env \<times> ProjectProvider" where
  "ProjectProvider_fetchTasksByProject st nf user projectId e s =
     (if user = None then (Inr Undefined, e, s)
      else
        (let s1 = s\<lparr>loading := True, error := None\<rparr> in
         case projectService_fetchTasksByProject st projectId e of
           (Inr ts, e') \<Rightarrow> (Inr (Recs ts), e', s1\<lparr>projectTasks := ts, loading := False\<rparr>)
         | (Inl err, e') \<Rightarrow>
             catch_finally err
               (''Failed to fetch tasks for project with ID '' @ toString nf projectId)
               (Recs []) e' s1))"

section \<open>The local-only task list\<close>

subsection \<open>Dates and strings of the platform\<close>

text \<open>
  The built-in \<^verbatim>\<open>Date\<close> is taken as a parameter: \<open>parse s\<close> is the time value of
  \<^verbatim>\<open>new Date(s)\<close> in milliseconds (\<open>None\<close> for an invalid date, whose time value is
  NaN), \<open>now\<close> is \<^verbatim>\<open>Date.now()\<close>, \<open>nowISO\<close> is \<^verbatim>\<open>new Date().toISOString()\<close> and
  \<open>startOfToday\<close> is \<^verbatim>\<open>new Date().setHours(0, 0, 0, 0)\<close>, the time value of the start of
  the current day in local time.
\<close>

record dates =
  parse :: "string \<Rightarrow> int option"
  now :: nat
  nowISO :: string
  startOfToday :: int

text \<open>
  \<^verbatim>\<open>String.prototype.trim\<close> on strings of one-byte characters: tab, line feed, vertical
  tab, form feed, carriage return, space and no-break space are white space.
\<close>

definition isWhiteSpace :: "char \<Rightarrow> bool" where
  "isWhiteSpace c = (c \<in> set [CHR 0x09, CHR 0x0A, CHR 0x0B, CHR 0x0C, CHR 0x0D, CHR 0x20, CHR 0xA0])"

definition trim :: "string \<Rightarrow> string" where
  "trim s = rev (dropWhile isWhiteSpace (rev (dropWhile isWhiteSpace s)))"

subsection \<open>The stored collection (pages/Home)\<close>

record formData =
  title :: string
  description :: string
  dueDate :: string
  priority :: string
  category :: string
  categoryColor :: string

record task = formData +
  id' :: string
  createdAt :: string
  isCompleted :: bool
  completedAt :: "string option"

text \<open>
  The state of the page, and the item \<^verbatim>\<open>tasks\<close> of local storage (\<open>None\<close> while the key
  is absent). The effect of the page writes the whole collection to local storage after
  every change of \<^verbatim>\<open>tasks\<close>.
\<close>

record Home =
  home_tasks :: "task list"
  filter' :: string
  sortDirection :: string
  localStorage_tasks :: "task list option"

definition persist :: "Home \<Rightarrow> Home" where
  "persist h = h\<lparr>localStorage_tasks := Some (home_tasks h)\<rparr>"

definition setTasks :: "task list \<Rightarrow> Home \<Rightarrow> Home" where
  "setTasks ts h = persist (h\<lparr>home_tasks := ts\<rparr>)"

definition addTask :: "task \<Rightarrow> Home \<Rightarrow> Home" where
  "addTask newTask h = setTasks (home_tasks h @ [newTask]) h"

definition toggleTaskCompletion :: "dates \<Rightarrow> string \<Rightarrow> Home \<Rightarrow> Home" where
  "toggleTaskCompletion d taskId h =
     setTasks
       (map (\<lambda>task.
               if id' task = taskId
               then task\<lparr>isCompleted := \<not> isCompleted task,
                         completedAt := (if \<not> isCompleted task then Some (nowISO d) else None)\<rparr>
               else task)
          (home_tasks h)) h"

definition deleteTask :: "string \<Rightarrow> Home \<Rightarrow> Home" where
  "deleteTask taskId h = setTasks (filter (\<lambda>task. id' task \<noteq> taskId) (home_tasks h)) h"

subsection \<open>The form (components/MainFeature)\<close>

record MainFeature =
  isFormOpen :: bool
  formData :: formData
  errors :: "(string \<times> string) list"

definition emptyForm :: formData where
  "emptyForm =
     \<lparr>title = [], description = [], dueDate = [], priority = ''Medium'', category = [],
      categoryColor = ''#6366f1''\<rparr>"

text \<open>
  \<^verbatim>\<open>new Date(formData.dueDate) < new Date().setHours(0, 0, 0, 0)\<close> compares two time
  values; a comparison with NaN is false.
\<close>

definition dueDateInPast :: "dates \<Rightarrow> string \<Rightarrow> bool" where
  "dueDateInPast d s =
     (s \<noteq> [] \<and> (case parse d s of None \<Rightarrow> False | Some t \<Rightarrow> t < startOfToday d))"

definition validateForm :: "dates \<Rightarrow> MainFeature \<Rightarrow> bool \<times> MainFeature" where
  "validateForm d m =
     (let newErrors =
            (if trim (title (formData m)) = [] then [(''title'', ''Title is required'')] else []) @
            (if dueDateInPast d (dueDate (formData m))
             then [(''dueDate'', ''Due date cannot be in the past'')] else [])
      in (length newErrors = 0, m\<lparr>errors := newErrors\<rparr>))"

text \<open>
  \<^verbatim>\<open>handleSubmit\<close> returns without calling \<^verbatim>\<open>onAddTask\<close> when the form is not valid;
  the page passes its \<^verbatim>\<open>addTask\<close> as \<^verbatim>\<open>onAddTask\<close>.
\<close>

definition handleSubmit :: "dates \<Rightarrow> MainFeature \<times> Home \<Rightarrow> MainFeature \<times> Home" where
  "handleSubmit d mh =
     (case mh of (m, h) \<Rightarrow>
        (case validateForm d m of
           (False, m') \<Rightarrow> (m', h)
         | (True, m') \<Rightarrow>
             (let fd = formData m;
                  newTask =
                    \<lparr>title = title fd, description = description fd, dueDate = dueDate fd,
                     priority = priority fd, category = category fd,
                     categoryColor = categoryColor fd,
                     id' = digits (now d), createdAt = nowISO d, isCompleted = False,
                     completedAt = None\<rparr>
              in (m'\<lparr>formData := emptyForm, isFormOpen := False\<rparr>, addTask newTask h))))"

section \<open>Auxiliary definitions for the statements\<close>

text \<open>The requests an operation added to the network log.\<close>

definition new_calls :: "env \<Rightarrow> env \<Rightarrow> request list" where
  "new_calls e e' = drop (length (calls e)) (calls e')"

subsection \<open>Concrete inputs\<close>

text \<open>
  An environment whose SDK is loaded and one whose SDK is missing; a store that answers
  every list query with the rows of the queried table and assigns a given identifier, and
  a store that rejects every call with a given value.
\<close>

definition ready :: env where
  "ready = \<lparr>apperClient = None, ApperSDK = True, calls = []\<rparr>"

definition offline :: env where
  "offline = \<lparr>apperClient = None, ApperSDK = False, calls = []\<rparr>"

definition demo_store :: "(string \<Rightarrow> entity list) \<Rightarrow> int \<Rightarrow> store" where
  "demo_store rows newId =
     \<lparr>fetchRecords = (\<lambda>h t p. Inr \<lparr>data = rows t\<rparr>),
      createRecord = (\<lambda>h t r. Inr \<lparr>data = \<lparr>Id = newId, cols = r\<rparr>\<rparr>),
      updateRecord = (\<lambda>h t i r. Inr \<lparr>data = \<lparr>Id = i, cols = r\<rparr>\<rparr>),
      deleteRecord = (\<lambda>h t i. Inr \<lparr>data = ()\<rparr>)\<rparr>"

definition failing_store :: "js_error \<Rightarrow> store" where
  "failing_store err =
     \<lparr>fetchRecords = (\<lambda>h t p. Inl err),
      createRecord = (\<lambda>h t r. Inl err),
      updateRecord = (\<lambda>h t i r. Inl err),
      deleteRecord = (\<lambda>h t i. Inl err)\<rparr>"

text \<open>A rendering of large numbers, for the places that need one.\<close>

definition demo_nf :: number_format where
  "demo_nf i = ''1e+21''"

definition one_task :: TaskProvider where
  "one_task =
     \<lparr>loading = False, error = None, tasks = [\<lparr>Id = 1, cols = [(''title'', Str ''Buy milk'')]\<rparr>],
      currentTask = None\<rparr>"

definition no_projects :: ProjectProvider where
  "no_projects =
     \<lparr>loading = False, error = None, projects = [], currentProject = None, projectTasks = []\<rparr>"

definition demo_rows :: "string \<Rightarrow> entity list" where
  "demo_rows t =
     (if t = ''task_project''
      then [\<lparr>Id = 10, cols = [(''task_id'', Num 7)]\<rparr>, \<lparr>Id = 11, cols = [(''task_id'', Num 8)]\<rparr>]
      else if t = ''task1''
      then [\<lparr>Id = 7, cols = [(''title'', Str ''Buy milk'')]\<rparr>, \<lparr>Id = 8, cols = []\<rparr>]
      else [])"

text \<open>
  A store that evaluates the filter of a query by identifier: it answers with the rows of
  the queried table whose identifier is the one asked for, and any other query with no row.
\<close>

definition matching_rows :: "string \<Rightarrow> params \<Rightarrow> entity list" where
  "matching_rows t q =
     (case filters q of
        [(c, Equals (Num i))] \<Rightarrow> if c = ''Id'' then filter (\<lambda>r. Id r = i) (demo_rows t) else []
      | _ \<Rightarrow> [])"

definition matching_store :: store where
  "matching_store =
     \<lparr>fetchRecords = (\<lambda>h t q. Inr \<lparr>data = matching_rows t q\<rparr>),
      createRecord = (\<lambda>h t r. Inl NoMessage),
      updateRecord = (\<lambda>h t i r. Inl NoMessage),
      deleteRecord = (\<lambda>h t i. Inl NoMessage)\<rparr>"

definition demo_task :: task where
  "demo_task =
     \<lparr>title = ''Buy milk'', description = [], dueDate = [], priority = ''Low'', category = [],
      categoryColor = ''#6366f1'', id' = ''1700000000000'',
      createdAt = ''2023-11-14T22:13:20.000Z'', isCompleted = False, completedAt = None\<rparr>"

definition demo_home :: Home where
  "demo_home =
     \<lparr>home_tasks = [demo_task], filter' = ''all'', sortDirection = ''desc'',
      localStorage_tasks = Some [demo_task]\<rparr>"

definition demo_dates :: dates where
  "demo_dates =
     \<lparr>parse = (\<lambda>s. if s = ''2023-11-13'' then Some 1699833600000 else None),
      now = 1700000001000, nowISO = ''2023-11-14T22:13:21.000Z'',
      startOfToday = 1699920000000\<rparr>"

definition demo_form :: "string \<Rightarrow> string \<Rightarrow> MainFeature" where
  "demo_form t due = \<lparr>isFormOpen = True, formData = emptyForm\<lparr>title := t, dueDate := due\<rparr>, errors = []\<rparr>"

section \<open>Basic facts about the client and the services\<close>

lemma getApperClient_None:
  "apperClient e = None \<Longrightarrow> \<not> ApperSDK e \<Longrightarrow> getApperClient e = (None, e)"
  by (simp add: getApperClient_def)

lemma getApperClient_calls: "calls (snd (getApperClient e)) = calls e"
  by (simp add: getApperClient_def)

lemma getApperClient_calls': "getApperClient e = (c, e') \<Longrightarrow> calls e' = calls e"
  using getApperClient_calls [of e] by simp

lemma fst_Inl_pair: "fst x = Inl err \<Longrightarrow> \<exists>e1. x = (Inl err, e1)"
  by (cases x) simp

lemmas client_defs =
  client_fetchRecords_def client_createRecord_def client_updateRecord_def
  client_deleteRecord_def

lemmas taskService_defs =
  taskService_fetchTasks_def taskService_fetchTaskById_def taskService_createTask_def
  taskService_updateTask_def taskService_deleteTask_def
  taskService_associateTaskWithProject_def

lemmas projectService_defs =
  projectService_fetchProjects_def projectService_fetchProjectById_def
  projectService_createProject_def projectService_updateProject_def
  projectService_deleteProject_def projectService_fetchTasksByProject_def

lemmas userService_defs =
  userService_fetchUsers_def userService_fetchUserById_def userService_createUser_def
  userService_updateUser_def userService_fetchTasksByUser_def

lemmas TaskProvider_defs =
  TaskProvider_fetchTasks_def TaskProvider_fetchTaskById_def TaskProvider_createTask_def
  TaskProvider_updateTask_def TaskProvider_deleteTask_def
  TaskProvider_associateWithProject_def

lemmas ProjectProvider_defs =
  ProjectProvider_fetchProjects_def ProjectProvider_fetchProjectById_def
  ProjectProvider_createProject_def ProjectProvider_updateProject_def
  ProjectProvider_deleteProject_def ProjectProvider_fetchTasksByProject_def

lemmas demo_defs =
  ready_def offline_def demo_store_def failing_store_def one_task_def no_projects_def

text \<open>A service call sends at most one request; the association resolver at most two.\<close>

lemma taskService_one_request:
  "taskService_fetchTasks st opts e = (r1, e1) \<Longrightarrow> length (calls e1) \<le> Suc (length (calls e))"
  "taskService_fetchTaskById st i e = (r2, e2) \<Longrightarrow> length (calls e2) \<le> Suc (length (calls e))"
  "taskService_createTask st d e = (r3, e3) \<Longrightarrow> length (calls e3) \<le> Suc (length (calls e))"
  "taskService_updateTask st i d e = (r4, e4) \<Longrightarrow> length (calls e4) \<le> Suc (length (calls e))"
  "taskService_deleteTask st i e = (r5, e5) \<Longrightarrow> length (calls e5) \<le> Suc (length (calls e))"
  "taskService_associateTaskWithProject st i j e = (r6, e6) \<Longrightarrow> length (calls e6) \<le> Suc (length (calls e))"
  by (auto simp: taskService_defs client_defs dest: getApperClient_calls'
      split: prod.splits option.splits sum.splits)

lemma projectService_one_request:
  "projectService_fetchProjects st opts e = (r1, e1) \<Longrightarrow> length (calls e1) \<le> Suc (length (calls e))"
  "projectService_fetchProjectById st i e = (r2, e2) \<Longrightarrow> length (calls e2) \<le> Suc (length (calls e))"
  "projectService_createProject st d e = (r3, e3) \<Longrightarrow> length (calls e3) \<le> Suc (length (calls e))"
  "projectService_updateProject st i d e = (r4, e4) \<Longrightarrow> length (calls e4) \<le> Suc (length (calls e))"
  "projectService_deleteProject st i e = (r5, e5) \<Longrightarrow> length (calls e5) \<le> Suc (length (calls e))"
  "projectService_fetchTasksByProject st i e = (r6, e6) \<Longrightarrow> length (calls e6) \<le> Suc (Suc (length (calls e)))"
  by (auto simp: projectService_defs client_defs Let_def dest: getApperClient_calls'
      split: prod.splits option.splits sum.splits if_splits)

text \<open>
  What a provider does when its service call throws: it runs its \<^verbatim>\<open>catch\<close> block on
  the state in which \<^verbatim>\<open>loading\<close> is set and \<^verbatim>\<open>error\<close> is cleared.
\<close>

lemma TaskProvider_failed:
  "taskService_fetchTasks st opts e = (Inl err, e1) \<Longrightarrow>
     TaskProvider_fetchTasks st (Some u) opts e s =
       catch_finally err
         (''Failed to fetch tasks'')
         Undefined e1 (s\<lparr>loading := True, error := None\<rparr>)"
  "taskService_fetchTaskById st taskId e = (Inl err, e1) \<Longrightarrow>
     TaskProvider_fetchTaskById st nf (Some u) taskId e s =
       catch_finally err
         (''Failed to fetch task with ID '' @ toString nf taskId)
         Null e1 (s\<lparr>loading := True, error := None\<rparr>)"
  "taskService_createTask st taskData e = (Inl err, e1) \<Longrightarrow>
     TaskProvider_createTask st (Some u) taskData e s =
       catch_finally err
         (''Failed to create task'')
         Null e1 (s\<lparr>loading := True, error := None\<rparr>)"
  "taskService_updateTask st taskId taskData e = (Inl err, e1) \<Longrightarrow>
     TaskProvider_updateTask st nf (Some u) taskId taskData e s =
       catch_finally err
         (''Failed to update task with ID '' @ toString nf taskId)
         Null e1 (s\<lparr>loading := True, error := None\<rparr>)"
  "taskService_deleteTask st taskId e = (Inl err, e1) \<Longrightarrow>
     TaskProvider_deleteTask st nf (Some u) taskId e s =
       catch_finally err
         (''Failed to delete task with ID '' @ toString nf taskId)
         (Boolean False) e1 (s\<lparr>loading := True, error := None\<rparr>)"
  "taskService_associateTaskWithProject st taskId projectId e = (Inl err, e1) \<Longrightarrow>
     TaskProvider_associateWithProject st nf (Some u) taskId projectId e s =
       catch_finally err
         (''Failed to associate task '' @ toString nf taskId
                  @ '' with project '' @ toString nf projectId)
         Null e1 (s\<lparr>loading := True, error := None\<rparr>)"
  by (simp_all add: TaskProvider_defs)

lemma ProjectProvider_failed:
  "projectService_fetchProjects st opts e = (Inl err, e1) \<Longrightarrow>
     ProjectProvider_fetchProjects st (Some u) opts e p =
       catch_finally err
         (''Failed to fetch projects'')
         Undefined e1 (p\<lparr>loading := True, error := None\<rparr>)"
  "projectService_fetchProjectById st projectId e = (Inl err, e1) \<Longrightarrow>
     ProjectProvider_fetchProjectById st nf (Some u) projectId e p =
       catch_finally err
         (''Failed to fetch project with ID '' @ toString nf projectId)
         Null e1 (p\<lparr>loading := True, error := None\<rparr>)"
  "projectService_createProject st projectData e = (Inl err, e1) \<Longrightarrow>
     ProjectProvider_createProject st (Some u) projectData e p =
       catch_finally err
         (''Failed to create project'')
         Null e1 (p\<lparr>loading := True, error := None\<rparr>)"
  "projectService_updateProject st projectId projectData e = (Inl err, e1) \<Longrightarrow>
     ProjectProvider_updateProject st nf (Some u) projectId projectData e p =
       catch_finally err
         (''Failed to update project with ID '' @ toString nf projectId)
         Null e1 (p\<lparr>loading := True, error := None\<rparr>)"
  "projectService_deleteProject st projectId e = (Inl err, e1) \<Longrightarrow>
     ProjectProvider_deleteProject st nf (Some u) projectId e p =
       catch_finally err
         (''Failed to delete project with ID '' @ toString nf projectId)
         (Boolean False) e1 (p\<lparr>loading := True, error := None\<rparr>)"
  "projectService_fetchTasksByProject st projectId e = (Inl err, e1) \<Longrightarrow>
     ProjectProvider_fetchTasksByProject st nf (Some u) projectId e p =
       catch_finally err
         (''Failed to fetch tasks for project with ID '' @ toString nf projectId)
         (Recs []) e1 (p\<lparr>loading := True, error := None\<rparr>)"
  by (simp_all add: ProjectProvider_defs)

text \<open>The two ways through the \<^verbatim>\<open>catch\<close> block.\<close>

lemma catch_finally_message:
  "err \<noteq> Nullish \<Longrightarrow>
   catch_finally err fallback neutral e1 s1 =
     (Inr neutral, e1,
      s1\<lparr>error := Some (case err of Error m \<Rightarrow> if m = [] then fallback else m | _ \<Rightarrow> fallback),
         loading := False\<rparr>)"
  by (cases err) (simp_all add: catch_finally_def message_or_def)

lemma catch_finally_Nullish:
  "catch_finally Nullish fallback neutral e1 s1 = (Inl TypeError, e1, s1\<lparr>loading := False\<rparr>)"
  by (simp add: catch_finally_def message_or_def)

lemma catch_finally_env: "fst (snd (catch_finally err fallback neutral e1 s1)) = e1"
  by (cases err) (simp_all add: catch_finally_def message_or_def)

lemma failing_store_rejects:
  "fst (taskService_fetchTasks (failing_store x) opts ready) = Inl x"
  "fst (taskService_fetchTaskById (failing_store x) i ready) = Inl x"
  "fst (taskService_createTask (failing_store x) d ready) = Inl x"
  "fst (taskService_updateTask (failing_store x) i d ready) = Inl x"
  "fst (taskService_deleteTask (failing_store x) i ready) = Inl x"
  "fst (taskService_associateTaskWithProject (failing_store x) i j ready) = Inl x"
  "fst (projectService_fetchProjects (failing_store x) opts ready) = Inl x"
  "fst (projectService_fetchProjectById (failing_store x) i ready) = Inl x"
  "fst (projectService_createProject (failing_store x) d ready) = Inl x"
  "fst (projectService_updateProject (failing_store x) i d ready) = Inl x"
  "fst (projectService_deleteProject (failing_store x) i ready) = Inl x"
  "fst (projectService_fetchTasksByProject (failing_store x) i ready) = Inl x"
  by (simp_all add: ready_def failing_store_def taskService_defs projectService_defs
      getApperClient_def client_defs)

section \<open>Creating a record\<close>

text \<open>
  The claim C1 as stated fails: a provider that already holds a record with identifier 1
  and receives identifier 1 from the store again ends with that identifier twice in
  \<^verbatim>\<open>tasks\<close>.
\<close>

theorem create_duplicate_identifier_counterexample:
  "fst (TaskProvider_createTask (demo_store (\<lambda>t. []) 1) (Some []) [] ready one_task) =
     Inr (Rec \<lparr>Id = 1, cols = []\<rparr>)
   \<and> count_list
        (map Id (tasks (snd (snd (TaskProvider_createTask (demo_store (\<lambda>t. []) 1) (Some []) []
                                   ready one_task))))) 1 = 2"
  by (simp add: demo_defs TaskProvider_createTask_def taskService_createTask_def
      getApperClient_def client_createRecord_def)

text \<open>
  C1, amended. After a successful \<^verbatim>\<open>createTask\<close> or \<^verbatim>\<open>createProject\<close> the returned
  record is the one the service returned and the records are the previous records followed
  by it, in their previous order. Its identifier occurs once more than before, hence
  exactly once whenever no cached record carried that identifier already.
\<close>

theorem create_appends_returned_record:
  "(taskService_createTask st taskData e = (Inr newTask, e1) \<longrightarrow>
      (let s' = snd (snd (TaskProvider_createTask st (Some u) taskData e s)) in
         fst (TaskProvider_createTask st (Some u) taskData e s) = Inr (Rec newTask)
         \<and> tasks s' = tasks s @ [newTask]
         \<and> count_list (map Id (tasks s')) (Id newTask) =
             Suc (count_list (map Id (tasks s)) (Id newTask))
         \<and> (Id newTask \<notin> Id ` set (tasks s) \<longrightarrow>
              count_list (map Id (tasks s')) (Id newTask) = 1)))
   \<and> (projectService_createProject st projectData e = (Inr newProject, e2) \<longrightarrow>
      (let p' = snd (snd (ProjectProvider_createProject st (Some u) projectData e p)) in
         fst (ProjectProvider_createProject st (Some u) projectData e p) = Inr (Rec newProject)
         \<and> projects p' = projects p @ [newProject]
         \<and> count_list (map Id (projects p')) (Id newProject) =
             Suc (count_list (map Id (projects p)) (Id newProject))
         \<and> (Id newProject \<notin> Id ` set (projects p) \<longrightarrow>
              count_list (map Id (projects p')) (Id newProject) = 1)))"
  by (simp add: TaskProvider_createTask_def ProjectProvider_createProject_def Let_def
      count_list_0_iff)

theorem create_appends_returned_record_witness:
  "taskService_createTask (demo_store (\<lambda>t. []) 2) [] ready =
     (Inr \<lparr>Id = 2, cols = []\<rparr>,
      ready\<lparr>apperClient := Some (ApperClient CANVAS_ID), calls := [CreateRecord TableNames_TASK []]\<rparr>)
   \<and> map Id (tasks (snd (snd (TaskProvider_createTask (demo_store (\<lambda>t. []) 2) (Some []) []
                               ready one_task)))) = [1, 2]
   \<and> count_list
        (map Id (tasks (snd (snd (TaskProvider_createTask (demo_store (\<lambda>t. []) 2) (Some []) []
                                   ready one_task))))) 2 = 1
   \<and> projectService_createProject (demo_store (\<lambda>t. []) 5) [] ready =
     (Inr \<lparr>Id = 5, cols = []\<rparr>,
      ready\<lparr>apperClient := Some (ApperClient CANVAS_ID),
            calls := [CreateRecord TableNames_PROJECT []]\<rparr>)
   \<and> count_list
        (map Id (projects (snd (snd (ProjectProvider_createProject (demo_store (\<lambda>t. []) 5)
                                      (Some []) [] ready no_projects))))) 5 = 1"
proof -
  have t: "taskService_createTask (demo_store (\<lambda>t. []) 2) [] ready =
     (Inr \<lparr>Id = 2, cols = []\<rparr>,
      ready\<lparr>apperClient := Some (ApperClient CANVAS_ID), calls := [CreateRecord TableNames_TASK []]\<rparr>)"
    by (simp add: demo_defs taskService_createTask_def getApperClient_def
        client_createRecord_def)
  have p: "projectService_createProject (demo_store (\<lambda>t. []) 5) [] ready =
     (Inr \<lparr>Id = 5, cols = []\<rparr>,
      ready\<lparr>apperClient := Some (ApperClient CANVAS_ID),
            calls := [CreateRecord TableNames_PROJECT []]\<rparr>)"
    by (simp add: demo_defs projectService_createProject_def getApperClient_def
        client_createRecord_def)
  have ft: "(2::int) \<notin> Id ` set (tasks one_task)" by (simp add: one_task_def)
  have fp: "(5::int) \<notin> Id ` set (projects no_projects)" by (simp add: no_projects_def)
  from t p ft fp
    create_appends_returned_record [where st = "demo_store (\<lambda>t. []) 2" and taskData = "[]" and e = ready
          and newTask = "\<lparr>Id = 2, cols = []\<rparr>" and u = "[]" and s = one_task
          and ?e1.0 = "ready\<lparr>apperClient := Some (ApperClient CANVAS_ID),
                              calls := [CreateRecord TableNames_TASK []]\<rparr>"]
    create_appends_returned_record [where st = "demo_store (\<lambda>t. []) 5" and projectData = "[]" and e = ready
          and newProject = "\<lparr>Id = 5, cols = []\<rparr>" and u = "[]" and p = no_projects
          and ?e2.0 = "ready\<lparr>apperClient := Some (ApperClient CANVAS_ID),
                              calls := [CreateRecord TableNames_PROJECT []]\<rparr>"]
  show ?thesis
    by (simp add: Let_def one_task_def)
qed

section \<open>A rejected gateway call\<close>

text \<open>
  The claim C2 as stated fails twice. When the store rejects an update with the message
  \<^verbatim>\<open>boom\<close>, the service throws but \<^verbatim>\<open>updateTask\<close> of the provider returns
  \<^verbatim>\<open>null\<close> to its caller; and when the rejection has an empty message, the provider
  records its own fallback message.
\<close>

theorem rejected_call_reraised_counterexample:
  "fst (taskService_updateTask (failing_store (Error ''boom'')) 1 [] ready) = Inl (Error ''boom'')
   \<and> fst (TaskProvider_updateTask (failing_store (Error ''boom'')) demo_nf (Some []) 1 [] ready
            one_task) = Inr Null
   \<and> fst (projectService_fetchProjects (failing_store (Error []))
             \<lparr>opt_filters = None, opt_limit = None, opt_offset = None, opt_orderBy = None\<rparr> ready) =
       Inl (Error [])
   \<and> error (snd (snd (ProjectProvider_fetchProjects (failing_store (Error [])) (Some [])
             \<lparr>opt_filters = None, opt_limit = None, opt_offset = None, opt_orderBy = None\<rparr>
             ready no_projects))) = Some ''Failed to fetch projects''"
  by (simp add: demo_defs TaskProvider_updateTask_def taskService_updateTask_def
      ProjectProvider_fetchProjects_def projectService_fetchProjects_def
      getApperClient_def client_defs catch_finally_def message_or_def)

text \<open>
  C2, amended. When the service call of a provider operation throws a value other than
  \<^verbatim>\<open>null\<close> or \<^verbatim>\<open>undefined\<close>, the operation records the message of that value as
  \<^verbatim>\<open>error\<close> if it has a non-empty one and its own fallback message otherwise, returns
  its neutral value (\<^verbatim>\<open>undefined\<close>, \<^verbatim>\<open>null\<close>, \<^verbatim>\<open>false\<close> or the empty list) instead
  of throwing, and changes nothing else in the state but the cleared \<^verbatim>\<open>loading\<close> flag.
  Whatever the thrown value, the environment is left as the one service call left it: at
  most one request was sent (two by the association resolver), so nothing was retried.
\<close>

theorem rejected_call_recorded_not_reraised:
  "(fst (taskService_fetchTasks st opts e) = Inl err \<longrightarrow>
      fst (snd (TaskProvider_fetchTasks st (Some u) opts e s)) =
        snd (taskService_fetchTasks st opts e)
      \<and> length (calls (snd (taskService_fetchTasks st opts e))) \<le> Suc (length (calls e))
      \<and> (err \<noteq> Nullish \<longrightarrow>
           TaskProvider_fetchTasks st (Some u) opts e s =
             (Inr Undefined, snd (taskService_fetchTasks st opts e),
              s\<lparr>loading := False,
                error :=
                  Some (case err of
                          Error m \<Rightarrow>
                            if m = [] then ''Failed to fetch tasks''
                            else m
                        | _ \<Rightarrow> ''Failed to fetch tasks'')\<rparr>)))
   \<and> (fst (taskService_fetchTaskById st taskId e) = Inl err \<longrightarrow>
      fst (snd (TaskProvider_fetchTaskById st nf (Some u) taskId e s)) =
        snd (taskService_fetchTaskById st taskId e)
      \<and> length (calls (snd (taskService_fetchTaskById st taskId e))) \<le> Suc (length (calls e))
      \<and> (err \<noteq> Nullish \<longrightarrow>
           TaskProvider_fetchTaskById st nf (Some u) taskId e s =
             (Inr Null, snd (taskService_fetchTaskById st taskId e),
              s\<lparr>loading := False,
                error :=
                  Some (case err of
                          Error m \<Rightarrow>
                            if m = [] then ''Failed to fetch task with ID '' @ toString nf taskId
                            else m
                        | _ \<Rightarrow> ''Failed to fetch task with ID '' @ toString nf taskId)\<rparr>)))
   \<and> (fst (taskService_createTask st taskData e) = Inl err \<longrightarrow>
      fst (snd (TaskProvider_createTask st (Some u) taskData e s)) =
        snd (taskService_createTask st taskData e)
      \<and> length (calls (snd (taskService_createTask st taskData e))) \<le> Suc (length (calls e))
      \<and> (err \<noteq> Nullish \<longrightarrow>
           TaskProvider_createTask st (Some u) taskData e s =
             (Inr Null, snd (taskService_createTask st taskData e),
              s\<lparr>loading := False,
                error :=
                  Some (case err of
                          Error m \<Rightarrow>
                            if m = [] then ''Failed to create task''
                            else m
                        | _ \<Rightarrow> ''Failed to create task'')\<rparr>)))
   \<and> (fst (taskService_updateTask st taskId taskData e) = Inl err \<longrightarrow>
      fst (snd (TaskProvider_updateTask st nf (Some u) taskId taskData e s)) =
        snd (taskService_updateTask st taskId taskData e)
      \<and> length (calls (snd (taskService_updateTask st taskId taskData e))) \<le> Suc (length (calls e))
      \<and> (err \<noteq> Nullish \<longrightarrow>
           TaskProvider_updateTask st nf (Some u) taskId taskData e s =
             (Inr Null, snd (taskService_updateTask st taskId taskData e),
              s\<lparr>loading := False,
                error :=
                  Some (case err of
                          Error m \<Rightarrow>
                            if m = [] then ''Failed to update task with ID '' @ toString nf taskId
                            else m
                        | _ \<Rightarrow> ''Failed to update task with ID '' @ toString nf taskId)\<rparr>)))
   \<and> (fst (taskService_deleteTask st taskId e) = Inl err \<longrightarrow>
      fst (snd (TaskProvider_deleteTask st nf (Some u) taskId e s)) =
        snd (taskService_deleteTask st taskId e)
      \<and> length (calls (snd (taskService_deleteTask st taskId e))) \<le> Suc (length (calls e))
      \<and> (err \<noteq> Nullish \<longrightarrow>
           TaskProvider_deleteTask st nf (Some u) taskId e s =
             (Inr (Boolean False), snd (taskService_deleteTask st taskId e),
              s\<lparr>loading := False,
                error :=
                  Some (case err of
                          Error m \<Rightarrow>
                            if m = [] then ''Failed to delete task with ID '' @ toString nf taskId
                            else m
                        | _ \<Rightarrow> ''Failed to delete task with ID '' @ toString nf taskId)\<rparr>)))
   \<and> (fst (taskService_associateTaskWithProject st taskId projectId e) = Inl err \<longrightarrow>
      fst (snd (TaskProvider_associateWithProject st nf (Some u) taskId projectId e s)) =
        snd (taskService_associateTaskWithProject st taskId projectId e)
      \<and> length (calls (snd (taskService_associateTaskWithProject st taskId projectId e))) \<le> Suc (length (calls e))
      \<and> (err \<noteq> Nullish \<longrightarrow>
           TaskProvider_associateWithProject st nf (Some u) taskId projectId e s =
             (Inr Null, snd (taskService_associateTaskWithProject st taskId projectId e),
              s\<lparr>loading := False,
                error :=
                  Some (case err of
                          Error m \<Rightarrow>
                            if m = [] then ''Failed to associate task '' @ toString nf taskId
                          @ '' with project '' @ toString nf projectId
                            else m
                        | _ \<Rightarrow> ''Failed to associate task '' @ toString nf taskId
                          @ '' with project '' @ toString nf projectId)\<rparr>)))
   \<and> (fst (projectService_fetchProjects st opts e) = Inl err \<longrightarrow>
      fst (snd (ProjectProvider_fetchProjects st (Some u) opts e p)) =
        snd (projectService_fetchProjects st opts e)
      \<and> length (calls (snd (projectService_fetchProjects st opts e))) \<le> Suc (length (calls e))
      \<and> (err \<noteq> Nullish \<longrightarrow>
           ProjectProvider_fetchProjects st (Some u) opts e p =
             (Inr Undefined, snd (projectService_fetchProjects st opts e),
              p\<lparr>loading := False,
                error :=
                  Some (case err of
                          Error m \<Rightarrow>
                            if m = [] then ''Failed to fetch projects''
                            else m
                        | _ \<Rightarrow> ''Failed to fetch projects'')\<rparr>)))
   \<and> (fst (projectService_fetchProjectById st projectId e) = Inl err \<longrightarrow>
      fst (snd (ProjectProvider_fetchProjectById st nf (Some u) projectId e p)) =
        snd (projectService_fetchProjectById st projectId e)
      \<and> length (calls (snd (projectService_fetchProjectById st projectId e))) \<le> Suc (length (calls e))
      \<and> (err \<noteq> Nullish \<longrightarrow>
           ProjectProvider_fetchProjectById st nf (Some u) projectId e p =
             (Inr Null, snd (projectService_fetchProjectById st projectId e),
              p\<lparr>loading := False,
                error :=
                  Some (case err of
                          Error m \<Rightarrow>
                            if m = [] then ''Failed to fetch project with ID '' @ toString nf projectId
                            else m
                        | _ \<Rightarrow> ''Failed to fetch project with ID '' @ toString nf projectId)\<rparr>)))
   \<and> (fst (projectService_createProject st projectData e) = Inl err \<longrightarrow>
      fst (snd (ProjectProvider_createProject st (Some u) projectData e p)) =
        snd (projectService_createProject st projectData e)
      \<and> length (calls (snd (projectService_createProject st projectData e))) \<le> Suc (length (calls e))
      \<and> (err \<noteq> Nullish \<longrightarrow>
           ProjectProvider_createProject st (Some u) projectData e p =
             (Inr Null, snd (projectService_createProject st projectData e),
              p\<lparr>loading := False,
                error :=
                  Some (case err of
                          Error m \<Rightarrow>
                            if m = [] then ''Failed to create project''
                            else m
                        | _ \<Rightarrow> ''Failed to create project'')\<rparr>)))
   \<and> (fst (projectService_updateProject st projectId projectData e) = Inl err \<longrightarrow>
      fst (snd (ProjectProvider_updateProject st nf (Some u) projectId projectData e p)) =
        snd (projectService_updateProject st projectId projectData e)
      \<and> length (calls (snd (projectService_updateProject st projectId projectData e))) \<le> Suc (length (calls e))
      \<and> (err \<noteq> Nullish \<longrightarrow>
           ProjectProvider_updateProject st nf (Some u) projectId projectData e p =
             (Inr Null, snd (projectService_updateProject st projectId projectData e),
              p\<lparr>loading := False,
                error :=
                  Some (case err of
                          Error m \<Rightarrow>
                            if m = [] then ''Failed to update project with ID '' @ toString nf projectId
                            else m
                        | _ \<Rightarrow> ''Failed to update project with ID '' @ toString nf projectId)\<rparr>)))
   \<and> (fst (projectService_deleteProject st projectId e) = Inl err \<longrightarrow>
      fst (snd (ProjectProvider_deleteProject st nf (Some u) projectId e p)) =
        snd (projectService_deleteProject st projectId e)
      \<and> length (calls (snd (projectService_deleteProject st projectId e))) \<le> Suc (length (calls e))
      \<and> (err \<noteq> Nullish \<longrightarrow>
           ProjectProvider_deleteProject st nf (Some u) projectId e p =
             (Inr (Boolean False), snd (projectService_deleteProject st projectId e),
              p\<lparr>loading := False,
                error :=
                  Some (case err of
                          Error m \<Rightarrow>
                            if m = [] then ''Failed to delete project with ID '' @ toString nf projectId
                            else m
                        | _ \<Rightarrow> ''Failed to delete project with ID '' @ toString nf projectId)\<rparr>)))
   \<and> (fst (projectService_fetchTasksByProject st projectId e) = Inl err \<longrightarrow>
      fst (snd (ProjectProvider_fetchTasksByProject st nf (Some u) projectId e p)) =
        snd (projectService_fetchTasksByProject st projectId e)
      \<and> length (calls (snd (projectService_fetchTasksByProject st projectId e))) \<le> Suc (Suc (length (calls e)))
      \<and> (err \<noteq> Nullish \<longrightarrow>
           ProjectProvider_fetchTasksByProject st nf (Some u) projectId e p =
             (Inr (Recs []), snd (projectService_fetchTasksByProject st projectId e),
              p\<lparr>loading := False,
                error :=
                  Some (case err of
                          Error m \<Rightarrow>
                            if m = [] then ''Failed to fetch tasks for project with ID '' @ toString nf projectId
                            else m
                        | _ \<Rightarrow> ''Failed to fetch tasks for project with ID '' @ toString nf projectId)\<rparr>)))"
  by (intro conjI impI)
     (auto simp: TaskProvider_failed ProjectProvider_failed catch_finally_message
        catch_finally_env taskService_one_request projectService_one_request
        dest!: fst_Inl_pair split: js_error.splits)

theorem rejected_call_recorded_not_reraised_witness:
  "fst (taskService_updateTask (failing_store (Error ''boom'')) 1 [] ready) = Inl (Error ''boom'')
   \<and> Error ''boom'' \<noteq> Nullish
   \<and> TaskProvider_updateTask (failing_store (Error ''boom'')) demo_nf (Some []) 1 [] ready one_task =
       (Inr Null,
        ready\<lparr>apperClient := Some (ApperClient CANVAS_ID),
              calls := [UpdateRecord TableNames_TASK 1 []]\<rparr>,
        one_task\<lparr>error := Some ''boom''\<rparr>)
   \<and> fst (projectService_deleteProject (failing_store (Error [])) 4 ready) = Inl (Error [])
   \<and> ProjectProvider_deleteProject (failing_store (Error [])) demo_nf (Some []) 4 ready no_projects =
       (Inr (Boolean False),
        ready\<lparr>apperClient := Some (ApperClient CANVAS_ID),
              calls := [DeleteRecord TableNames_PROJECT 4]\<rparr>,
        no_projects\<lparr>error := Some ''Failed to delete project with ID 4''\<rparr>)
   \<and> fst (projectService_fetchTasksByProject (failing_store NoMessage) 4 ready) = Inl NoMessage
   \<and> NoMessage \<noteq> Nullish
   \<and> ProjectProvider_fetchTasksByProject (failing_store NoMessage) demo_nf (Some []) 4 ready
         no_projects =
       (Inr (Recs []),
        ready\<lparr>apperClient := Some (ApperClient CANVAS_ID),
              calls := [FetchRecords TableNames_TASK_PROJECT (association_params 4)]\<rparr>,
        no_projects\<lparr>error := Some ''Failed to fetch tasks for project with ID 4''\<rparr>)"
  using failing_store_rejects [of "Error ''boom''"] failing_store_rejects [of "Error []"]
    failing_store_rejects [of NoMessage]
    rejected_call_recorded_not_reraised
      [where st = "failing_store (Error ''boom'')" and e = ready and err = "Error ''boom''"
         and taskId = 1 and taskData = "[]" and u = "[]" and s = one_task and nf = demo_nf
         and projectId = 4 and p = no_projects]
    rejected_call_recorded_not_reraised
      [where st = "failing_store (Error [])" and e = ready and err = "Error []"
         and taskId = 1 and taskData = "[]" and u = "[]" and s = one_task and nf = demo_nf
         and projectId = 4 and p = no_projects]
    rejected_call_recorded_not_reraised
      [where st = "failing_store NoMessage" and e = ready and err = NoMessage
         and taskId = 1 and taskData = "[]" and u = "[]" and s = one_task and nf = demo_nf
         and projectId = 4 and p = no_projects]
  by (simp add: demo_defs taskService_updateTask_def projectService_deleteProject_def
      projectService_fetchTasksByProject_def getApperClient_def client_defs toString_def
      digits.simps)

text \<open>
  What holds of every failed service call, whatever value it throws: the cached records
  and the current record of the provider are unchanged and \<^verbatim>\<open>loading\<close> is cleared.
\<close>

lemma failed_call_frame:
  "(fst (taskService_fetchTasks st opts e) = Inl err \<longrightarrow>
      (let s' = snd (snd (TaskProvider_fetchTasks st (Some u) opts e s)) in
         tasks s' = tasks s \<and> currentTask s' = currentTask s \<and> \<not> loading s'))
   \<and> (fst (taskService_fetchTaskById st taskId e) = Inl err \<longrightarrow>
      (let s' = snd (snd (TaskProvider_fetchTaskById st nf (Some u) taskId e s)) in
         tasks s' = tasks s \<and> currentTask s' = currentTask s \<and> \<not> loading s'))
   \<and> (fst (taskService_createTask st taskData e) = Inl err \<longrightarrow>
      (let s' = snd (snd (TaskProvider_createTask st (Some u) taskData e s)) in
         tasks s' = tasks s \<and> currentTask s' = currentTask s \<and> \<not> loading s'))
   \<and> (fst (taskService_updateTask st taskId taskData e) = Inl err \<longrightarrow>
      (let s' = snd (snd (TaskProvider_updateTask st nf (Some u) taskId taskData e s)) in
         tasks s' = tasks s \<and> currentTask s' = currentTask s \<and> \<not> loading s'))
   \<and> (fst (taskService_deleteTask st taskId e) = Inl err \<longrightarrow>
      (let s' = snd (snd (TaskProvider_deleteTask st nf (Some u) taskId e s)) in
         tasks s' = tasks s \<and> currentTask s' = currentTask s \<and> \<not> loading s'))
   \<and> (fst (taskService_associateTaskWithProject st taskId projectId e) = Inl err \<longrightarrow>
      (let s' = snd (snd (TaskProvider_associateWithProject st nf (Some u) taskId projectId e s)) in
         tasks s' = tasks s \<and> currentTask s' = currentTask s \<and> \<not> loading s'))
   \<and> (fst (projectService_fetchProjects st opts e) = Inl err \<longrightarrow>
      (let s' = snd (snd (ProjectProvider_fetchProjects st (Some u) opts e p)) in
         projects s' = projects p \<and> currentProject s' = currentProject p
         \<and> projectTasks s' = projectTasks p \<and> \<not> loading s'))
   \<and> (fst (projectService_fetchProjectById st projectId e) = Inl err \<longrightarrow>
      (let s' = snd (snd (ProjectProvider_fetchProjectById st nf (Some u) projectId e p)) in
         projects s' = projects p \<and> currentProject s' = currentProject p
         \<and> projectTasks s' = projectTasks p \<and> \<not> loading s'))
   \<and> (fst (projectService_createProject st projectData e) = Inl err \<longrightarrow>
      (let s' = snd (snd (ProjectProvider_createProject st (Some u) projectData e p)) in
         projects s' = projects p \<and> currentProject s' = currentProject p
         \<and> projectTasks s' = projectTasks p \<and> \<not> loading s'))
   \<and> (fst (projectService_updateProject st projectId projectData e) = Inl err \<longrightarrow>
      (let s' = snd (snd (ProjectProvider_updateProject st nf (Some u) projectId projectData e p)) in
         projects s' = projects p \<and> currentProject s' = currentProject p
         \<and> projectTasks s' = projectTasks p \<and> \<not> loading s'))
   \<and> (fst (projectService_deleteProject st projectId e) = Inl err \<longrightarrow>
      (let s' = snd (snd (ProjectProvider_deleteProject st nf (Some u) projectId e p)) in
         projects s' = projects p \<and> currentProject s' = currentProject p
         \<and> projectTasks s' = projectTasks p \<and> \<not> loading s'))
   \<and> (fst (projectService_fetchTasksByProject st projectId e) = Inl err \<longrightarrow>
      (let s' = snd (snd (ProjectProvider_fetchTasksByProject st nf (Some u) projectId e p)) in
         projects s' = projects p \<and> currentProject s' = currentProject p
         \<and> projectTasks s' = projectTasks p \<and> \<not> loading s'))"
  by (intro conjI impI)
     (auto simp: TaskProvider_failed ProjectProvider_failed Let_def catch_finally_def
        message_or_def dest!: fst_Inl_pair split: js_error.splits)

text \<open>
  C5. The claim is right about the records and the flag, and the code misses one case of
  what it says about the message: when the store rejects the list query with \<^verbatim>\<open>null\<close>,
  the \<^verbatim>\<open>catch\<close> block of \<^verbatim>\<open>fetchTasks\<close> throws while reading the message, so the
  operation throws to its caller and \<^verbatim>\<open>error\<close>, cleared at the start, is not set. The
  records are untouched and \<^verbatim>\<open>loading\<close> is cleared.
\<close>

theorem null_rejection_sets_no_error:
  "fst (taskService_fetchTasks (failing_store Nullish)
          \<lparr>opt_filters = None, opt_limit = None, opt_offset = None, opt_orderBy = None\<rparr> ready) =
     Inl Nullish
   \<and> fst (TaskProvider_fetchTasks (failing_store Nullish) (Some [])
            \<lparr>opt_filters = None, opt_limit = None, opt_offset = None, opt_orderBy = None\<rparr> ready
            (one_task\<lparr>error := Some ''stale''\<rparr>)) = Inl TypeError
   \<and> error (snd (snd (TaskProvider_fetchTasks (failing_store Nullish) (Some [])
            \<lparr>opt_filters = None, opt_limit = None, opt_offset = None, opt_orderBy = None\<rparr> ready
            (one_task\<lparr>error := Some ''stale''\<rparr>)))) = None
   \<and> tasks (snd (snd (TaskProvider_fetchTasks (failing_store Nullish) (Some [])
            \<lparr>opt_filters = None, opt_limit = None, opt_offset = None, opt_orderBy = None\<rparr> ready
            (one_task\<lparr>error := Some ''stale''\<rparr>)))) = tasks one_task
   \<and> \<not> loading (snd (snd (TaskProvider_fetchTasks (failing_store Nullish) (Some [])
            \<lparr>opt_filters = None, opt_limit = None, opt_offset = None, opt_orderBy = None\<rparr> ready
            (one_task\<lparr>error := Some ''stale''\<rparr>))))"
  by (simp add: demo_defs TaskProvider_fetchTasks_def taskService_fetchTasks_def
      getApperClient_def client_defs catch_finally_def message_or_def)

section \<open>No authenticated identity\<close>

text \<open>
  C4. Without a user every operation of both providers returns its neutral value
  (\<^verbatim>\<open>undefined\<close>, \<^verbatim>\<open>null\<close> or \<^verbatim>\<open>false\<close>) and leaves the environment, hence the
  client and the network log, and the whole state of the provider, hence \<^verbatim>\<open>error\<close>,
  exactly as they were.
\<close>

theorem unauthenticated_operation_is_neutral:
  "TaskProvider_fetchTasks st None opts e s = (Inr Undefined, e, s)
   \<and> TaskProvider_fetchTaskById st nf None taskId e s = (Inr Undefined, e, s)
   \<and> TaskProvider_createTask st None taskData e s = (Inr Null, e, s)
   \<and> TaskProvider_updateTask st nf None taskId taskData e s = (Inr Null, e, s)
   \<and> TaskProvider_deleteTask st nf None taskId e s = (Inr (Boolean False), e, s)
   \<and> TaskProvider_associateWithProject st nf None taskId projectId e s = (Inr Null, e, s)
   \<and> ProjectProvider_fetchProjects st None opts e p = (Inr Undefined, e, p)
   \<and> ProjectProvider_fetchProjectById st nf None projectId e p = (Inr Undefined, e, p)
   \<and> ProjectProvider_createProject st None projectData e p = (Inr Null, e, p)
   \<and> ProjectProvider_updateProject st nf None projectId projectData e p = (Inr Null, e, p)
   \<and> ProjectProvider_deleteProject st nf None projectId e p = (Inr (Boolean False), e, p)
   \<and> ProjectProvider_fetchTasksByProject st nf None projectId e p = (Inr Undefined, e, p)"
  by (simp add: TaskProvider_defs ProjectProvider_defs)

section \<open>The gateway without a client\<close>

text \<open>
  C8. When there is no client and the SDK is not loaded, every function of the three
  services throws the error \<^verbatim>\<open>ApperClient not initialized\<close> and the environment is
  unchanged: no request has been sent.
\<close>

theorem uninitialized_client_fails_first:
  assumes "apperClient e = None" and "\<not> ApperSDK e"
  shows "taskService_fetchTasks st opts e = (Inl (Error ''ApperClient not initialized''), e)
     \<and> taskService_fetchTaskById st taskId e = (Inl (Error ''ApperClient not initialized''), e)
     \<and> taskService_createTask st taskData e = (Inl (Error ''ApperClient not initialized''), e)
     \<and> taskService_updateTask st taskId taskData e = (Inl (Error ''ApperClient not initialized''), e)
     \<and> taskService_deleteTask st taskId e = (Inl (Error ''ApperClient not initialized''), e)
     \<and> taskService_associateTaskWithProject st taskId projectId e = (Inl (Error ''ApperClient not initialized''), e)
     \<and> projectService_fetchProjects st opts e = (Inl (Error ''ApperClient not initialized''), e)
     \<and> projectService_fetchProjectById st projectId e = (Inl (Error ''ApperClient not initialized''), e)
     \<and> projectService_createProject st projectData e = (Inl (Error ''ApperClient not initialized''), e)
     \<and> projectService_updateProject st projectId projectData e = (Inl (Error ''ApperClient not initialized''), e)
     \<and> projectService_deleteProject st projectId e = (Inl (Error ''ApperClient not initialized''), e)
     \<and> projectService_fetchTasksByProject st projectId e = (Inl (Error ''ApperClient not initialized''), e)
     \<and> userService_fetchUsers st opts e = (Inl (Error ''ApperClient not initialized''), e)
     \<and> userService_fetchUserById st userId e = (Inl (Error ''ApperClient not initialized''), e)
     \<and> userService_createUser st userData e = (Inl (Error ''ApperClient not initialized''), e)
     \<and> userService_updateUser st userId userData e = (Inl (Error ''ApperClient not initialized''), e)
     \<and> userService_fetchTasksByUser st userId e = (Inl (Error ''ApperClient not initialized''), e)"
  using assms
  by (simp add: getApperClient_None not_initialized_def taskService_defs projectService_defs
      userService_defs)

theorem uninitialized_client_fails_first_witness:
  "apperClient offline = None \<and> \<not> ApperSDK offline \<and> calls offline = []
   \<and> taskService_fetchTasks (demo_store (\<lambda>t. []) 1) \<lparr>opt_filters = None, opt_limit = None, opt_offset = None, opt_orderBy = None\<rparr> offline = (Inl (Error ''ApperClient not initialized''), offline)
   \<and> projectService_fetchTasksByProject (demo_store (\<lambda>t. []) 1) 3 offline = (Inl (Error ''ApperClient not initialized''), offline)
   \<and> userService_updateUser (demo_store (\<lambda>t. []) 1) 2 [] offline = (Inl (Error ''ApperClient not initialized''), offline)"
proof -
  have a: "apperClient offline = None" and b: "\<not> ApperSDK offline"
    by (simp_all add: offline_def)
  show ?thesis
    using a b uninitialized_client_fails_first [OF a b, of "demo_store (\<lambda>t. []) 1"] by (simp add: offline_def)
qed

section \<open>Looking one record up\<close>

text \<open>
  C9. With a client at hand, \<^verbatim>\<open>fetchTaskById\<close>, \<^verbatim>\<open>fetchProjectById\<close> and
  \<^verbatim>\<open>fetchUserById\<close> send one request: a query of their table whose only filter is that
  the column \<^verbatim>\<open>Id\<close> equals the given identifier. When the store resolves that query,
  the function returns \<^verbatim>\<open>null\<close> if the response holds no record and the first record
  of the response otherwise; it does not throw.
\<close>

theorem fetchById_null_when_absent:
  assumes "getApperClient e0 = (Some cl, e)"
  shows "(fetchRecords st (calls e) ''task1''
           \<lparr>fields' = FieldNames_TASK, pagingInfo = None, orderBy = None,
            filters = [(''Id'', Equals (Num taskId))]\<rparr> = Inr resp1
         \<longrightarrow> taskService_fetchTaskById st taskId e0 =
               (Inr (case data resp1 of [] \<Rightarrow> None | r # _ \<Rightarrow> Some r),
                e\<lparr>calls := calls e @
                   [FetchRecords ''task1''
                      \<lparr>fields' = FieldNames_TASK, pagingInfo = None, orderBy = None,
                       filters = [(''Id'', Equals (Num taskId))]\<rparr>]\<rparr>))
       \<and> (fetchRecords st (calls e) ''project1''
           \<lparr>fields' = FieldNames_PROJECT, pagingInfo = None, orderBy = None,
            filters = [(''Id'', Equals (Num projectId))]\<rparr> = Inr resp2
         \<longrightarrow> projectService_fetchProjectById st projectId e0 =
               (Inr (case data resp2 of [] \<Rightarrow> None | r # _ \<Rightarrow> Some r),
                e\<lparr>calls := calls e @
                   [FetchRecords ''project1''
                      \<lparr>fields' = FieldNames_PROJECT, pagingInfo = None, orderBy = None,
                       filters = [(''Id'', Equals (Num projectId))]\<rparr>]\<rparr>))
       \<and> (fetchRecords st (calls e) ''User1''
           \<lparr>fields' = FieldNames_USER, pagingInfo = None, orderBy = None,
            filters = [(''Id'', Equals (Num userId))]\<rparr> = Inr resp3
         \<longrightarrow> userService_fetchUserById st userId e0 =
               (Inr (case data resp3 of [] \<Rightarrow> None | r # _ \<Rightarrow> Some r),
                e\<lparr>calls := calls e @
                   [FetchRecords ''User1''
                      \<lparr>fields' = FieldNames_USER, pagingInfo = None, orderBy = None,
                       filters = [(''Id'', Equals (Num userId))]\<rparr>]\<rparr>))"
  using assms
  by (simp add: taskService_fetchTaskById_def projectService_fetchProjectById_def
      userService_fetchUserById_def client_fetchRecords_def first_or_null_def by_id_params_def
      TableNames_TASK_def TableNames_PROJECT_def TableNames_USER_def split: list.splits)

text \<open>
  A store that answers a query by identifier with the rows of the table that carry the
  identifier, and any other query with nothing.
\<close>

theorem fetchById_null_when_absent_witness:
  "getApperClient ready =
     (Some (ApperClient CANVAS_ID), ready\<lparr>apperClient := Some (ApperClient CANVAS_ID)\<rparr>)
   \<and> fst (taskService_fetchTaskById matching_store 7 ready) =
        Inr (Some \<lparr>Id = 7, cols = [(''title'', Str ''Buy milk'')]\<rparr>)
   \<and> fst (taskService_fetchTaskById matching_store 8 ready) = Inr (Some \<lparr>Id = 8, cols = []\<rparr>)
   \<and> fst (taskService_fetchTaskById matching_store 9 ready) = Inr None
   \<and> calls (snd (taskService_fetchTaskById matching_store 9 ready)) =
        [FetchRecords ''task1''
           \<lparr>fields' = FieldNames_TASK, pagingInfo = None, orderBy = None,
            filters = [(''Id'', Equals (Num 9))]\<rparr>]
   \<and> fst (projectService_fetchProjectById matching_store 7 ready) = Inr None
   \<and> fst (userService_fetchUserById matching_store 7 ready) = Inr None"
proof -
  have g: "getApperClient ready =
      (Some (ApperClient CANVAS_ID), ready\<lparr>apperClient := Some (ApperClient CANVAS_ID)\<rparr>)"
    by (simp add: getApperClient_def ready_def)
  show ?thesis
    using g
      fetchById_null_when_absent
        [OF g, where st = matching_store and taskId = 7 and projectId = 7 and userId = 7
           and ?resp1.0 = "\<lparr>data = [\<lparr>Id = 7, cols = [(''title'', Str ''Buy milk'')]\<rparr>]\<rparr>"
           and ?resp2.0 = "\<lparr>data = []\<rparr>" and ?resp3.0 = "\<lparr>data = []\<rparr>"]
      fetchById_null_when_absent
        [OF g, where st = matching_store and taskId = 8 and projectId = 7 and userId = 7
           and ?resp1.0 = "\<lparr>data = [\<lparr>Id = 8, cols = []\<rparr>]\<rparr>"
           and ?resp2.0 = "\<lparr>data = []\<rparr>" and ?resp3.0 = "\<lparr>data = []\<rparr>"]
      fetchById_null_when_absent
        [OF g, where st = matching_store and taskId = 9 and projectId = 7 and userId = 7
           and ?resp1.0 = "\<lparr>data = []\<rparr>"
           and ?resp2.0 = "\<lparr>data = []\<rparr>" and ?resp3.0 = "\<lparr>data = []\<rparr>"]
    by (simp add: matching_store_def matching_rows_def demo_rows_def ready_def)
qed

section \<open>The tasks of a project\<close>

text \<open>
  C6. With a client at hand, \<^verbatim>\<open>fetchTasksByProject\<close> first queries the association
  table filtered by the project identifier. If that query resolves with no association,
  the result is the empty list and that query is the only request: none goes to the task
  table. If it resolves with associations, exactly one more request follows, a query of
  the task table whose filter asks for the task identifier to be among the collected ones,
  and the result is the outcome of that query. If the first query is rejected, the error
  is thrown and no other request is sent.
\<close>

theorem fetchTasksByProject_queries:
  assumes "getApperClient e0 = (Some cl, e)"
  shows "filters (association_params projectId) = [(''project_id'', Equals (Num projectId))]
     \<and> (fetchRecords st (calls e) TableNames_TASK_PROJECT (association_params projectId) = Inr resp
          \<and> data resp = []
        \<longrightarrow> (let r = projectService_fetchTasksByProject st projectId e0 in
               fst r = Inr []
               \<and> new_calls e0 (snd r) =
                   [FetchRecords TableNames_TASK_PROJECT (association_params projectId)]
               \<and> filter (\<lambda>q. table_of q = TableNames_TASK) (new_calls e0 (snd r)) = []))
     \<and> (fetchRecords st (calls e) TableNames_TASK_PROJECT (association_params projectId) = Inl err
        \<longrightarrow> (let r = projectService_fetchTasksByProject st projectId e0 in
               fst r = Inl err
               \<and> new_calls e0 (snd r) =
                   [FetchRecords TableNames_TASK_PROJECT (association_params projectId)]))
     \<and> (fetchRecords st (calls e) TableNames_TASK_PROJECT (association_params projectId) = Inr resp
          \<and> data resp \<noteq> []
        \<longrightarrow> (let r = projectService_fetchTasksByProject st projectId e0;
                  q1 = FetchRecords TableNames_TASK_PROJECT (association_params projectId);
                  taskIds = map (\<lambda>assoc. field_of assoc ''task_id'') (data resp);
                  q2 = FetchRecords TableNames_TASK (tasks_in_params taskIds) in
               new_calls e0 (snd r) = [q1, q2]
               \<and> filter (\<lambda>q. table_of q = TableNames_TASK) (new_calls e0 (snd r)) = [q2]
               \<and> filters (tasks_in_params taskIds) = [(''Id'', IsIn taskIds)]
               \<and> fst r =
                   (case fetchRecords st (calls e @ [q1]) TableNames_TASK (tasks_in_params taskIds) of
                      Inr tasksResponse \<Rightarrow> Inr (data tasksResponse)
                    | Inl err \<Rightarrow> Inl err)))"
  using assms getApperClient_calls' [OF assms]
  by (auto simp: projectService_fetchTasksByProject_def client_fetchRecords_def Let_def
      new_calls_def association_params_def tasks_in_params_def TableNames_TASK_def
      TableNames_TASK_PROJECT_def split: sum.splits)

theorem fetchTasksByProject_queries_witness:
  "getApperClient ready =
     (Some (ApperClient CANVAS_ID), ready\<lparr>apperClient := Some (ApperClient CANVAS_ID)\<rparr>)
   \<and> fst (projectService_fetchTasksByProject (demo_store (\<lambda>t. []) 1) 3 ready) = Inr []
   \<and> calls (snd (projectService_fetchTasksByProject (demo_store (\<lambda>t. []) 1) 3 ready)) =
       [FetchRecords ''task_project''
          \<lparr>fields' = [''Id'', ''task_id''], pagingInfo = None, orderBy = None,
           filters = [(''project_id'', Equals (Num 3))]\<rparr>]
   \<and> fst (projectService_fetchTasksByProject (demo_store demo_rows 1) 3 ready) =
       Inr (demo_rows ''task1'')
   \<and> calls (snd (projectService_fetchTasksByProject (demo_store demo_rows 1) 3 ready)) =
       [FetchRecords ''task_project''
          \<lparr>fields' = [''Id'', ''task_id''], pagingInfo = None, orderBy = None,
           filters = [(''project_id'', Equals (Num 3))]\<rparr>,
        FetchRecords ''task1''
          \<lparr>fields' = FieldNames_TASK, pagingInfo = None, orderBy = None,
           filters = [(''Id'', IsIn [Some (Num 7), Some (Num 8)])]\<rparr>]"
proof -
  have g: "getApperClient ready =
      (Some (ApperClient CANVAS_ID), ready\<lparr>apperClient := Some (ApperClient CANVAS_ID)\<rparr>)"
    by (simp add: getApperClient_def ready_def)
  show ?thesis
    using g
      fetchTasksByProject_queries [OF g, where st = "demo_store (\<lambda>t. []) 1" and projectId = 3
            and resp = "\<lparr>data = []\<rparr>"]
      fetchTasksByProject_queries [OF g, where st = "demo_store demo_rows 1" and projectId = 3
            and resp = "\<lparr>data = demo_rows ''task_project''\<rparr>"]
    by (simp add: demo_store_def demo_rows_def ready_def new_calls_def Let_def field_of_def
        association_params_def tasks_in_params_def TableNames_TASK_def
        TableNames_TASK_PROJECT_def)
qed

section \<open>The local-only task list\<close>

lemma toggle_absent:
  "taskId \<notin> id' ` set ts \<Longrightarrow>
   map (\<lambda>task. if id' task = taskId
               then task\<lparr>isCompleted := \<not> isCompleted task,
                         completedAt := (if \<not> isCompleted task then Some n else None)\<rparr>
               else task) ts = ts"
  by (induction ts) auto

lemma delete_absent:
  "taskId \<notin> id' ` set ts \<Longrightarrow> filter (\<lambda>task. id' task \<noteq> taskId) ts = ts"
  by (induction ts) auto

text \<open>
  C7. For a task of the stored collection that is not completed, toggling its identifier
  sets \<^verbatim>\<open>isCompleted\<close> and sets \<^verbatim>\<open>completedAt\<close> to the current time stamp, and leaves
  its other fields alone; toggling the same identifier again clears \<^verbatim>\<open>isCompleted\<close>
  and sets \<^verbatim>\<open>completedAt\<close> to \<^verbatim>\<open>null\<close>, so the completion flag is the original one and
  a task that had no completion time is the original task again. The collection is
  written to local storage after each step.
\<close>

theorem toggleTaskCompletion_round_trip:
  assumes "i < length (home_tasks h)" and "\<not> isCompleted (home_tasks h ! i)"
  shows "(let t = home_tasks h ! i;
              h1 = toggleTaskCompletion d (id' t) h;
              h2 = toggleTaskCompletion d2 (id' t) h1 in
            home_tasks h1 ! i = t\<lparr>isCompleted := True, completedAt := Some (nowISO d)\<rparr>
          \<and> home_tasks h2 ! i = t\<lparr>isCompleted := False, completedAt := None\<rparr>
          \<and> isCompleted (home_tasks h2 ! i) = isCompleted t
          \<and> (completedAt t = None \<longrightarrow> home_tasks h2 ! i = t)
          \<and> localStorage_tasks h1 = Some (home_tasks h1)
          \<and> localStorage_tasks h2 = Some (home_tasks h2))"
  using assms
  by (simp add: toggleTaskCompletion_def setTasks_def persist_def Let_def)

theorem toggleTaskCompletion_round_trip_witness:
  "0 < length (home_tasks demo_home) \<and> \<not> isCompleted (home_tasks demo_home ! 0)
   \<and> home_tasks (toggleTaskCompletion demo_dates ''1700000000000'' demo_home) =
       [demo_task\<lparr>isCompleted := True, completedAt := Some ''2023-11-14T22:13:21.000Z''\<rparr>]
   \<and> home_tasks (toggleTaskCompletion demo_dates ''1700000000000''
                    (toggleTaskCompletion demo_dates ''1700000000000'' demo_home)) = [demo_task]"
proof -
  have a: "0 < length (home_tasks demo_home)" and b: "\<not> isCompleted (home_tasks demo_home ! 0)"
    by (simp_all add: demo_home_def demo_task_def)
  show ?thesis
    using a b toggleTaskCompletion_round_trip [OF a b, of demo_dates demo_dates]
    by (simp add: Let_def demo_home_def demo_task_def demo_dates_def toggleTaskCompletion_def
        setTasks_def persist_def)
qed

text \<open>
  C10. For an identifier that no task of the stored collection carries,
  \<^verbatim>\<open>toggleTaskCompletion\<close> and \<^verbatim>\<open>deleteTask\<close> leave the collection as it is, the same
  tasks in the same order; the page state changes in nothing but the copy in local storage,
  which holds that same collection. Neither function has an error result.
\<close>

theorem absent_identifier_no_change:
  assumes "taskId \<notin> id' ` set (home_tasks h)"
  shows "home_tasks (toggleTaskCompletion d taskId h) = home_tasks h
       \<and> home_tasks (deleteTask taskId h) = home_tasks h
       \<and> toggleTaskCompletion d taskId h = h\<lparr>localStorage_tasks := Some (home_tasks h)\<rparr>
       \<and> deleteTask taskId h = h\<lparr>localStorage_tasks := Some (home_tasks h)\<rparr>"
  using assms
  by (simp add: toggleTaskCompletion_def deleteTask_def setTasks_def persist_def
      toggle_absent delete_absent)

theorem absent_identifier_no_change_witness:
  "''42'' \<notin> id' ` set (home_tasks demo_home)
   \<and> toggleTaskCompletion demo_dates ''42'' demo_home = demo_home
   \<and> deleteTask ''42'' demo_home = demo_home"
proof -
  have a: "''42'' \<notin> id' ` set (home_tasks demo_home)"
    by (simp add: demo_home_def demo_task_def)
  show ?thesis
    using a absent_identifier_no_change [OF a, of demo_dates] by (simp add: demo_home_def)
qed

text \<open>
  C3. If the title of the form is empty after trimming, submitting records the error
  \<^verbatim>\<open>Title is required\<close> for the title; if a due date is given whose time value lies
  strictly before the start of the current day in local time, submitting records the error
  \<^verbatim>\<open>Due date cannot be in the past\<close> for the due date. In both cases the page state,
  with the stored collection and local storage, is unchanged, the form keeps its data and
  stays open, and the submission returns normally.
\<close>

theorem invalid_form_blocks_addTask:
  "(trim (title (formData m)) = [] \<longrightarrow>
      snd (handleSubmit d (m, h)) = h
      \<and> map_of (errors (fst (handleSubmit d (m, h)))) ''title'' = Some ''Title is required''
      \<and> formData (fst (handleSubmit d (m, h))) = formData m
      \<and> isFormOpen (fst (handleSubmit d (m, h))) = isFormOpen m)
   \<and> (dueDate (formData m) \<noteq> [] \<and> parse d (dueDate (formData m)) = Some t \<and> t < startOfToday d
      \<longrightarrow>
      snd (handleSubmit d (m, h)) = h
      \<and> map_of (errors (fst (handleSubmit d (m, h)))) ''dueDate'' =
          Some ''Due date cannot be in the past''
      \<and> formData (fst (handleSubmit d (m, h))) = formData m
      \<and> isFormOpen (fst (handleSubmit d (m, h))) = isFormOpen m)"
  by (simp add: handleSubmit_def validateForm_def dueDateInPast_def Let_def)

theorem invalid_form_blocks_addTask_witness:
  "trim (title (formData (demo_form ''  '' []))) = []
   \<and> handleSubmit demo_dates (demo_form ''  '' [], demo_home) =
       ((demo_form ''  '' [])\<lparr>errors := [(''title'', ''Title is required'')]\<rparr>, demo_home)
   \<and> dueDate (formData (demo_form ''X'' ''2023-11-13'')) \<noteq> []
   \<and> parse demo_dates (dueDate (formData (demo_form ''X'' ''2023-11-13''))) = Some 1699833600000
   \<and> (1699833600000 :: int) < startOfToday demo_dates
   \<and> handleSubmit demo_dates (demo_form ''X'' ''2023-11-13'', demo_home) =
       ((demo_form ''X'' ''2023-11-13'')\<lparr>errors := [(''dueDate'', ''Due date cannot be in the past'')]\<rparr>,
        demo_home)"
proof -
  have a: "trim (title (formData (demo_form ''  '' []))) = []"
    by (simp add: demo_form_def trim_def isWhiteSpace_def)
  have b: "dueDate (formData (demo_form ''X'' ''2023-11-13'')) \<noteq> []
      \<and> parse demo_dates (dueDate (formData (demo_form ''X'' ''2023-11-13''))) = Some 1699833600000
      \<and> (1699833600000 :: int) < startOfToday demo_dates"
    by (simp add: demo_form_def demo_dates_def)
  show ?thesis
    using a b
      invalid_form_blocks_addTask [where m = "demo_form ''  '' []" and d = demo_dates and h = demo_home]
      invalid_form_blocks_addTask [where m = "demo_form ''X'' ''2023-11-13''" and d = demo_dates and h = demo_home
            and t = 1699833600000]
    by (simp add: handleSubmit_def validateForm_def dueDateInPast_def Let_def demo_form_def
        demo_dates_def trim_def isWhiteSpace_def emptyForm_def)
qed

end
